theory Spec2Isabelle
  imports Main
begin

section \<open>Dataset synchronisation of the Covid19 dashboard (helpers/download.py)\<close>

text \<open>
  The module downloads CSV files into a local directory tree. Its effects are on the
  file system and on the network, so both are explicit here. The network is a function
  from a URL to what a request for it gives. A function of the module takes the state
  it starts from (the file system, and the list of the requests made so far) and
  returns the state it leaves behind together with the exception it raised, if any: an
  exception does not undo what was written before it.

  Three things are fixed for the length of one call: what the network answers, what
  the clock reads (\<open>pd.Timestamp.now()\<close> is one value, \<open>now\<close>), and the order of the work:
  the items of a work list are processed one after the other, in the order of the list.
\<close>

subsection \<open>Exceptions\<close>

datatype error =
    FileNotFoundError
  | FileExistsError
  | NotADirectoryError
  | IsADirectoryError
  | HTTPError nat
  | URLError
  | RuntimeError string
  | ParserError
  | JSONDecodeError
  | KeyError
  | TypeError
  | ValueError
  | AttributeError

subsection \<open>Timestamps of the freshness marker\<close>

text \<open>
  \<open>pd.Timestamp\<close> as the marker comparison sees it: an instant, in nanoseconds since
  the epoch, and whether the timestamp carries a time zone. Pandas refuses to compare a
  timestamp with a time zone to one without.
\<close>

datatype timestamp = Timestamp (nanos: int) (aware: bool)

definition ts_le :: "timestamp \<Rightarrow> timestamp \<Rightarrow> error + bool" where
  "ts_le a b = (if aware a = aware b then Inr (nanos a \<le> nanos b) else Inl TypeError)"

text \<open>\<open>pd.Timestamp(0, tz="UTC")\<close>\<close>

definition epoch_utc :: timestamp where
  "epoch_utc = Timestamp 0 True"

subsection \<open>Files, directories and paths\<close>

text \<open>
  A path is the list of its parts (\<open>Path.parts\<close>); \<open>dir.joinpath(s)\<close> appends one part.
  The empty path is the directory that relative paths start from, which always exists.
  A CSV table is the list of its lines; a JSON document is an object whose fields hold
  timestamps (the only JSON the module reads is the freshness marker).
\<close>

type_synonym path = "string list"
type_synonym table = "string list"
type_synonym json = "(string \<times> timestamp) list"

datatype content = Csv table | Json json

datatype node = Dir | File content

type_synonym fs = "path \<rightharpoonup> node"

definition joinpath :: "path \<Rightarrow> string \<Rightarrow> path" where
  "joinpath p s = p @ [s]"

definition parent :: "path \<Rightarrow> path" where
  "parent p = butlast p"

definition is_dir :: "fs \<Rightarrow> path \<Rightarrow> bool" where
  "is_dir f p = (p = [] \<or> f p = Some Dir)"

text \<open>\<open>Path.exists()\<close>\<close>

definition exists :: "fs \<Rightarrow> path \<Rightarrow> bool" where
  "exists f p = (p = [] \<or> f p \<noteq> None)"

text \<open>
  \<open>Path.mkdir()\<close> with its default arguments (\<open>parents=False, exist_ok=False\<close>):
  the parent has to be an existing directory and the path itself must not exist.
\<close>

definition mkdir :: "fs \<Rightarrow> path \<Rightarrow> error + fs" where
  "mkdir f p =
     (if p = [] then Inl FileExistsError
      else if \<not> exists f (parent p) then Inl FileNotFoundError
      else if \<not> is_dir f (parent p) then Inl NotADirectoryError
      else if exists f p then Inl FileExistsError
      else Inr (f(p \<mapsto> Dir)))"

text \<open>
  Opening a path for writing and storing content there (\<open>df.to_csv(file)\<close>,
  \<open>file.open("w")\<close> followed by \<open>json.dump\<close>): the file is created or replaced.
\<close>

definition write_file :: "fs \<Rightarrow> path \<Rightarrow> content \<Rightarrow> error + fs" where
  "write_file f p c =
     (if p = [] then Inl IsADirectoryError
      else if \<not> exists f (parent p) then Inl FileNotFoundError
      else if \<not> is_dir f (parent p) then Inl NotADirectoryError
      else if is_dir f p then Inl IsADirectoryError
      else Inr (f(p \<mapsto> File c)))"

subsection \<open>create_dir\<close>

definition create_dir :: "fs \<Rightarrow> path \<Rightarrow> error + fs" where
  "create_dir f dir =
     (if \<not> exists f dir then mkdir f dir
      else Inr f)"

subsection \<open>The network\<close>

text \<open>
  What a request for a URL gives: a CSV table, a JSON document, an HTTP error with its
  status code (\<open>urllib.error.HTTPError\<close>), or a failure that is not an HTTP error
  (no connection, no such host; \<open>URLError\<close>).
\<close>

datatype response = Table table | Document json | HttpFail nat | UrlFail

type_synonym net = "string \<Rightarrow> response"

text \<open>
  The state the module works on: the file system and the URLs requested so far, in the
  order of the requests.
\<close>

record world =
  fsys :: fs
  requests :: "string list"

definition request :: "world \<Rightarrow> string \<Rightarrow> world" where
  "request w url = w\<lparr>requests := requests w @ [url]\<rparr>"

subsection \<open>download_csv\<close>

text \<open>
  The result is the table, or \<open>None\<close> for the \<open>False\<close> that the function returns when
  the download failed with an HTTP error and \<open>raise_error\<close> is off. Only \<open>HTTPError\<close>
  is caught; a document that is not a CSV table is taken to fail in the parser.
\<close>

definition download_csv :: "net \<Rightarrow> world \<Rightarrow> string \<Rightarrow> bool \<Rightarrow> world \<times> (error + table option)" where
  "download_csv nt w url raise_error =
     (case nt url of
        Table df \<Rightarrow> (request w url, Inr (Some df))
      | Document j \<Rightarrow> (request w url, Inl ParserError)
      | HttpFail code \<Rightarrow>
          (if raise_error then (request w url, Inl (RuntimeError url))
           else (request w url, Inr None))
      | UrlFail \<Rightarrow> (request w url, Inl URLError))"

subsection \<open>Running a job on every item of a list\<close>

text \<open>
  \<open>list(map(job, items))\<close>, and \<open>jb.Parallel(n_jobs=1)(jb.delayed(job)(x) for x in items)\<close>,
  the sequential schedule that the module selects when the root logger is at DEBUG:
  the items in the order of the list, and the first exception ends the call. With any
  other logger level the module passes \<open>n_jobs=-1\<close> and joblib spreads the jobs over
  worker processes; which jobs have finished when one of them raises is then up to
  joblib, and is not part of this model.
\<close>

fun for_each :: "(world \<Rightarrow> 'a \<Rightarrow> world \<times> error option) \<Rightarrow> world \<Rightarrow> 'a list \<Rightarrow> world \<times> error option" where
  "for_each job w [] = (w, None)"
| "for_each job w (x # xs) =
     (case job w x of
        (w', Some e) \<Rightarrow> (w', Some e)
      | (w', None) \<Rightarrow> for_each job w' xs)"

definition create_dir_w :: "world \<Rightarrow> path \<Rightarrow> world \<times> error option" where
  "create_dir_w w dir =
     (case create_dir (fsys w) dir of
        Inl e \<Rightarrow> (w, Some e)
      | Inr f \<Rightarrow> (w\<lparr>fsys := f\<rparr>, None))"

definition to_csv :: "world \<Rightarrow> path \<Rightarrow> table \<Rightarrow> world \<times> error option" where
  "to_csv w file df =
     (case write_file (fsys w) file (Csv df) of
        Inl e \<Rightarrow> (w, Some e)
      | Inr f \<Rightarrow> (w\<lparr>fsys := f\<rparr>, None))"

text \<open>
  The pruning of both update functions: the files that exist are collected, then each
  is removed from the work list (\<open>list.remove\<close> removes the first occurrence).
\<close>

definition remove_existing :: "fs \<Rightarrow> bool \<Rightarrow> path list \<Rightarrow> path list" where
  "remove_existing f force files =
     (let existing_files = filter (exists f) files
      in if \<not> force then foldl (\<lambda>fl file. remove1 file fl) files existing_files
         else files)"

subsection \<open>Calendar dates\<close>

text \<open>
  \<open>pd.Timestamp\<close> as the date enumeration sees it: a day of the Gregorian calendar and
  the time of day, in nanoseconds. Only valid dates can be constructed; functions
  on dates are total here, and one that is given an invalid date yields the empty
  range.
\<close>

datatype date = Date (year: nat) (month: nat) (day: nat)

datatype daytime = Daytime (date_of: date) (time_of: nat)

definition leap_year :: "nat \<Rightarrow> bool" where
  "leap_year y = (y mod 4 = 0 \<and> (y mod 100 \<noteq> 0 \<or> y mod 400 = 0))"

definition days_in_month :: "nat \<Rightarrow> nat \<Rightarrow> nat" where
  "days_in_month y m =
     (if m = 2 then (if leap_year y then 29 else 28)
      else if m = 4 \<or> m = 6 \<or> m = 9 \<or> m = 11 then 30
      else 31)"

definition valid_date :: "date \<Rightarrow> bool" where
  "valid_date d =
     (1 \<le> month d \<and> month d \<le> 12 \<and> 1 \<le> day d \<and> day d \<le> days_in_month (year d) (month d))"

definition next_day :: "date \<Rightarrow> date" where
  "next_day d =
     (if day d < days_in_month (year d) (month d) then Date (year d) (month d) (day d + 1)
      else if month d < 12 then Date (year d) (month d + 1) 1
      else Date (year d + 1) 1 1)"

definition date_less :: "date \<Rightarrow> date \<Rightarrow> bool" where
  "date_less a b =
     (year a < year b \<or>
      (year a = year b \<and> (month a < month b \<or> (month a = month b \<and> day a < day b))))"

definition date_le :: "date \<Rightarrow> date \<Rightarrow> bool" where
  "date_le a b = (a = b \<or> date_less a b)"

text \<open>\<open>Timestamp.normalize()\<close>: the time of day is set to midnight.\<close>

definition normalize_ts :: "daytime \<Rightarrow> daytime" where
  "normalize_ts t = Daytime (date_of t) 0"

text \<open>A bound used for termination only: it grows with every step to the next day.\<close>

definition rank :: "date \<Rightarrow> nat" where
  "rank d = year d * 372 + month d * 31 + day d"

text \<open>The days from \<open>s\<close> to \<open>e\<close>, one calendar day after the other.\<close>

function days_from :: "date \<Rightarrow> date \<Rightarrow> date list" where
  "days_from s e =
     (if valid_date s \<and> valid_date e \<and> date_le s e then s # days_from (next_day s) e
      else [])"
  by pat_completeness auto
termination
proof (relation "measure (\<lambda>(s, e). rank e + 1 - rank s)")
  show "wf (measure (\<lambda>(s, e). rank e + 1 - rank s))" by simp
next
  fix s e
  assume h: "valid_date s \<and> valid_date e \<and> date_le s e"
  have dim: "\<And>y m. days_in_month y m \<le> 31"
    by (simp add: days_in_month_def)
  have bounds: "day s \<le> 31" "day e \<le> 31" "month s \<le> 12" "month e \<le> 12"
       "1 \<le> day s" "1 \<le> day e" "1 \<le> month s" "1 \<le> month e"
    using h dim[of "year s" "month s"] dim[of "year e" "month e"]
    by (auto simp: valid_date_def)
  have up: "rank s < rank (next_day s)"
    using bounds by (auto simp: next_day_def rank_def)
  have le: "rank s \<le> rank e"
    using h bounds unfolding date_le_def date_less_def rank_def by auto
  show "((next_day s, e), (s, e)) \<in> measure (\<lambda>(s, e). rank e + 1 - rank s)"
    using up le by simp
qed

declare days_from.simps [simp del]

text \<open>
  \<open>pd.date_range(start, end, normalize=True)\<close> with the default daily frequency: both
  ends are normalized, and the range holds the midnight of every day from the first
  to the second.
\<close>

definition date_range :: "daytime \<Rightarrow> daytime \<Rightarrow> daytime list" where
  "date_range start end =
     map (\<lambda>d. Daytime d 0) (days_from (date_of (normalize_ts start)) (date_of (normalize_ts end)))"

subsection \<open>Strings\<close>

text \<open>\<open>str.lstrip(chars)\<close> and \<open>str.rstrip(chars)\<close>: \<open>chars\<close> is a set of characters.\<close>

definition lstrip :: "string \<Rightarrow> string \<Rightarrow> string" where
  "lstrip chars s = dropWhile (\<lambda>c. c \<in> set chars) s"

definition rstrip :: "string \<Rightarrow> string \<Rightarrow> string" where
  "rstrip chars s = rev (dropWhile (\<lambda>c. c \<in> set chars) (rev s))"

text \<open>\<open>"/".join(parts)\<close>\<close>

fun join_slash :: "string list \<Rightarrow> string" where
  "join_slash [] = []"
| "join_slash [s] = s"
| "join_slash (s # t # ss) = s @ ''/'' @ join_slash (t # ss)"

text \<open>\<open>xs[-n:]\<close>\<close>

definition last_n :: "nat \<Rightarrow> 'a list \<Rightarrow> 'a list" where
  "last_n n xs = drop (length xs - n) xs"

definition digit_char :: "nat \<Rightarrow> char" where
  "digit_char n = ''0123456789'' ! (n mod 10)"

text \<open>\<open>strftime('%Y%m%d')\<close>, for the four-digit years that pandas represents.\<close>

definition strftime_Ymd :: "date \<Rightarrow> string" where
  "strftime_Ymd d =
     [digit_char (year d div 1000), digit_char (year d div 100),
      digit_char (year d div 10), digit_char (year d),
      digit_char (month d div 10), digit_char (month d),
      digit_char (day d div 10), digit_char (day d)]"

definition digit_val :: "char \<Rightarrow> nat option" where
  "digit_val c =
     map_of [(CHR ''0'', 0), (CHR ''1'', 1), (CHR ''2'', 2), (CHR ''3'', 3), (CHR ''4'', 4),
             (CHR ''5'', 5), (CHR ''6'', 6), (CHR ''7'', 7), (CHR ''8'', 8), (CHR ''9'', 9)] c"

fun number_val :: "nat \<Rightarrow> string \<Rightarrow> nat option" where
  "number_val acc [] = Some acc"
| "number_val acc (c # cs) =
     (case digit_val c of None \<Rightarrow> None | Some v \<Rightarrow> number_val (10 * acc + v) cs)"

text \<open>
  \<open>pd.Timestamp(s)\<close> on the strings the module passes: eight digits, read as year, month
  and day. Anything else is taken to be refused.
\<close>

definition parse_Ymd :: "string \<Rightarrow> error + daytime" where
  "parse_Ymd s =
     (if length s \<noteq> 8 then Inl ValueError
      else case (number_val 0 (take 4 s), number_val 0 (take 2 (drop 4 s)), number_val 0 (drop 6 s)) of
        (Some y, Some m, Some d) \<Rightarrow>
          (if valid_date (Date y m d) then Inr (Daytime (Date y m d) 0) else Inl ValueError)
      | _ \<Rightarrow> Inl ValueError)"

subsection \<open>update_contagions\<close>

definition contagions_remote :: string where
  "contagions_remote = ''https://raw.githubusercontent.com/pcm-dpc/COVID-19/master''"

definition contagions_subdirs :: "path \<Rightarrow> path list" where
  "contagions_subdirs dir = map (\<lambda>s. joinpath dir s) [''dati-andamento-nazionale'', ''dati-regioni'']"

text \<open>The file of one date in one subdirectory (the body of the list comprehension).\<close>

definition contagions_file :: "path \<Rightarrow> daytime \<Rightarrow> path" where
  "contagions_file subdir date =
     joinpath subdir
       (''dpc-covid19-ita-'' @ lstrip ''-'' (lstrip ''dati'' (last subdir)) @
        ''-'' @ strftime_Ymd (date_of date) @ ''.csv'')"

definition contagions_files :: "path \<Rightarrow> daytime \<Rightarrow> daytime \<Rightarrow> path list" where
  "contagions_files dir start_date end_date =
     concat (map (\<lambda>date. map (\<lambda>subdir. contagions_file subdir date) (contagions_subdirs dir))
                 (date_range start_date end_date))"

text \<open>
  The nested function \<open>update\<close> of \<open>update_contagions\<close>: the URL of a file is made
  of its last two parts, its date is read from the last eight characters of its name
  without the extension; \<open>now\<close> is what \<open>pd.Timestamp.now()\<close> gives.
\<close>

definition contagions_url :: "path \<Rightarrow> string" where
  "contagions_url file = join_slash (contagions_remote # last_n 2 file)"

definition contagions_date :: "path \<Rightarrow> error + daytime" where
  "contagions_date file = parse_Ymd (last_n 8 (rstrip ''.csv'' (last file)))"

definition contagions_update :: "net \<Rightarrow> daytime \<Rightarrow> world \<Rightarrow> path \<Rightarrow> world \<times> error option" where
  "contagions_update nt now w file =
     (let url = contagions_url file
      in case contagions_date file of
           Inl e \<Rightarrow> (w, Some e)
         | Inr date \<Rightarrow>
             (let today = normalize_ts now
              in case download_csv nt w url (date \<noteq> today) of
                   (w', Inl e) \<Rightarrow> (w', Some e)
                 | (w', Inr (Some df)) \<Rightarrow> to_csv w' file df
                 | (w', Inr None) \<Rightarrow> (w', None)))"

text \<open>
  \<open>end_date\<close> is \<open>None\<close> for the default, the current time. The work list is what the
  function hands to the executor.
\<close>

definition contagions_work_list :: "fs \<Rightarrow> daytime \<Rightarrow> path \<Rightarrow> daytime \<Rightarrow> daytime option \<Rightarrow> bool \<Rightarrow> path list" where
  "contagions_work_list f now dir start_date end_date force =
     (let end = (case end_date of None \<Rightarrow> now | Some e \<Rightarrow> e)
      in remove_existing f force (contagions_files dir start_date end))"

definition update_contagions ::
  "net \<Rightarrow> daytime \<Rightarrow> world \<Rightarrow> path \<Rightarrow> daytime \<Rightarrow> daytime option \<Rightarrow> bool \<Rightarrow> world \<times> error option" where
  "update_contagions nt now w dir start_date end_date force =
     (case create_dir_w w dir of
        (w1, Some e) \<Rightarrow> (w1, Some e)
      | (w1, None) \<Rightarrow>
          (case for_each create_dir_w w1 (contagions_subdirs dir) of
             (w2, Some e) \<Rightarrow> (w2, Some e)
           | (w2, None) \<Rightarrow>
               for_each (contagions_update nt now) w2
                 (contagions_work_list (fsys w2) now dir start_date end_date force)))"

subsection \<open>update_vaccinations\<close>

definition vaccinations_remote :: string where
  "vaccinations_remote =
     ''https://raw.githubusercontent.com/italia/'' @ ''covid19-opendata-vaccini/master/dati''"

definition vaccinations_files :: "path \<Rightarrow> path list" where
  "vaccinations_files dir =
     map (\<lambda>s. joinpath dir s)
       [''consegne-vaccini-latest.csv'',
        ''somministrazioni-vaccini-latest.csv'',
        ''platea.csv'',
        ''platea-dose-addizionale-booster.csv'']"

definition last_update_file :: "path \<Rightarrow> path" where
  "last_update_file dir = joinpath dir ''last-update-dataset.json''"

text \<open>\<open>pd.Timestamp(doc["ultimo_aggiornamento"])\<close>\<close>

definition ultimo_aggiornamento :: "json \<Rightarrow> error + timestamp" where
  "ultimo_aggiornamento doc =
     (case map_of doc ''ultimo_aggiornamento'' of
        None \<Rightarrow> Inl KeyError
      | Some t \<Rightarrow> Inr t)"

text \<open>\<open>json.load\<close> of an open local file\<close>

definition load_json_file :: "fs \<Rightarrow> path \<Rightarrow> error + json" where
  "load_json_file f p =
     (case f p of
        None \<Rightarrow> Inl FileNotFoundError
      | Some Dir \<Rightarrow> Inl IsADirectoryError
      | Some (File (Csv t)) \<Rightarrow> Inl JSONDecodeError
      | Some (File (Json doc)) \<Rightarrow> Inr doc)"

text \<open>The local timestamp: that of the marker file, or a very old one when there is none.\<close>

definition local_timestamp :: "fs \<Rightarrow> path \<Rightarrow> error + timestamp" where
  "local_timestamp f dir =
     (if exists f (last_update_file dir) then
        (case load_json_file f (last_update_file dir) of
           Inl e \<Rightarrow> Inl e
         | Inr doc \<Rightarrow> ultimo_aggiornamento doc)
      else Inr epoch_utc)"

text \<open>\<open>json.load(urlopen(url))\<close>\<close>

definition load_json_url :: "net \<Rightarrow> world \<Rightarrow> string \<Rightarrow> world \<times> (error + json)" where
  "load_json_url nt w url =
     (case nt url of
        Document doc \<Rightarrow> (request w url, Inr doc)
      | Table t \<Rightarrow> (request w url, Inl JSONDecodeError)
      | HttpFail code \<Rightarrow> (request w url, Inl (HTTPError code))
      | UrlFail \<Rightarrow> (request w url, Inl URLError))"

definition last_update_url :: "path \<Rightarrow> string" where
  "last_update_url dir = join_slash [vaccinations_remote, last (last_update_file dir)]"

text \<open>The nested function \<open>update\<close> of \<open>update_vaccinations\<close>.\<close>

definition vaccinations_url :: "path \<Rightarrow> string" where
  "vaccinations_url file = join_slash [vaccinations_remote, last file]"

definition vaccinations_update :: "net \<Rightarrow> world \<Rightarrow> path \<Rightarrow> world \<times> error option" where
  "vaccinations_update nt w file =
     (let url = vaccinations_url file
      in case download_csv nt w url True of
           (w', Inl e) \<Rightarrow> (w', Some e)
         | (w', Inr (Some df)) \<Rightarrow> to_csv w' file df
         | (w', Inr None) \<Rightarrow> (w', Some AttributeError))"

text \<open>
  \<open>not force and t_remote <= t_local\<close>: the timestamps are compared only when \<open>force\<close>
  is off.
\<close>

definition no_updates :: "bool \<Rightarrow> timestamp \<Rightarrow> timestamp \<Rightarrow> error + bool" where
  "no_updates force t_remote t_local = (if force then Inr False else ts_le t_remote t_local)"

definition update_vaccinations :: "net \<Rightarrow> world \<Rightarrow> path \<Rightarrow> bool \<Rightarrow> world \<times> error option" where
  "update_vaccinations nt w dir force =
     (case create_dir_w w dir of
        (w1, Some e) \<Rightarrow> (w1, Some e)
      | (w1, None) \<Rightarrow>
          (case local_timestamp (fsys w1) dir of
             Inl e \<Rightarrow> (w1, Some e)
           | Inr t_local \<Rightarrow>
               (case load_json_url nt w1 (last_update_url dir) of
                  (w2, Inl e) \<Rightarrow> (w2, Some e)
                | (w2, Inr last_update_remote) \<Rightarrow>
                    (case ultimo_aggiornamento last_update_remote of
                       Inl e \<Rightarrow> (w2, Some e)
                     | Inr t_remote \<Rightarrow>
                         (case no_updates force t_remote t_local of
                            Inl e \<Rightarrow> (w2, Some e)
                          | Inr True \<Rightarrow> (w2, None)
                          | Inr False \<Rightarrow>
                              (case write_file (fsys w2) (last_update_file dir)
                                      (Json last_update_remote) of
                                 Inl e \<Rightarrow> (w2, Some e)
                               | Inr f3 \<Rightarrow>
                                   for_each (vaccinations_update nt) (w2\<lparr>fsys := f3\<rparr>)
                                     (remove_existing f3 force (vaccinations_files dir))))))))"

subsection \<open>Example states\<close>

text \<open>Concrete file systems, networks and paths, used to run the functions.\<close>

definition empty_fs :: fs where
  "empty_fs = Map.empty"

definition example_world :: world where
  "example_world = \<lparr>fsys = empty_fs, requests = []\<rparr>"

definition data_tree :: fs where
  "data_tree =
     empty_fs([''data''] \<mapsto> Dir, [''data'', ''dati-andamento-nazionale''] \<mapsto> Dir,
              [''data'', ''dati-regioni''] \<mapsto> Dir)"

definition nazionale_20210315 :: path where
  "nazionale_20210315 =
     [''data'', ''dati-andamento-nazionale'', ''dpc-covid19-ita-andamento-nazionale-20210315.csv'']"

definition regioni_20210315 :: path where
  "regioni_20210315 = [''data'', ''dati-regioni'', ''dpc-covid19-ita-regioni-20210315.csv'']"

definition regioni_20210316 :: path where
  "regioni_20210316 = [''data'', ''dati-regioni'', ''dpc-covid19-ita-regioni-20210316.csv'']"

definition nazionale_20210315_url :: string where
  "nazionale_20210315_url =
     ''https://raw.githubusercontent.com/pcm-dpc/COVID-19/master/dati-andamento-nazionale/dpc-covid19-ita-andamento-nazionale-20210315.csv''"

definition regioni_20210315_url :: string where
  "regioni_20210315_url =
     ''https://raw.githubusercontent.com/pcm-dpc/COVID-19/master/dati-regioni/dpc-covid19-ita-regioni-20210315.csv''"

definition net_nazionale_missing :: net where
  "net_nazionale_missing url =
     (if url = nazionale_20210315_url then HttpFail 404 else Table [''data,totale_casi''])"

definition net_all_published :: net where
  "net_all_published url = Table [''data,totale_casi'']"

definition synced_world :: world where
  "synced_world =
     \<lparr>fsys = data_tree(nazionale_20210315 \<mapsto> File (Csv [''data,totale_casi'']),
                       regioni_20210315 \<mapsto> File (Csv [''data,totale_casi''])),
      requests = [nazionale_20210315_url, regioni_20210315_url]\<rparr>"

definition stale_world :: world where
  "stale_world = \<lparr>fsys = data_tree(nazionale_20210315 \<mapsto> File (Csv [''old''])), requests = []\<rparr>"

definition example_marker :: json where
  "example_marker = [(''ultimo_aggiornamento'', Timestamp 1615800000000000000 True)]"

definition last_update_dataset_url :: string where
  "last_update_dataset_url =
     ''https://raw.githubusercontent.com/italia/covid19-opendata-vaccini/master/dati/last-update-dataset.json''"

definition consegne_url :: string where
  "consegne_url =
     ''https://raw.githubusercontent.com/italia/covid19-opendata-vaccini/master/dati/consegne-vaccini-latest.csv''"

definition net_vaccini_missing :: net where
  "net_vaccini_missing url =
     (if url = last_update_dataset_url then Document example_marker else HttpFail 404)"

definition vaccinations_tree :: fs where
  "vaccinations_tree = empty_fs([''vaccinations''] \<mapsto> Dir)"

definition marked_tree :: fs where
  "marked_tree =
     vaccinations_tree([''vaccinations'', ''last-update-dataset.json''] \<mapsto> File (Json example_marker))"

definition downloaded_tree :: fs where
  "downloaded_tree =
     vaccinations_tree
       ([''vaccinations'', ''consegne-vaccini-latest.csv''] \<mapsto> File (Csv [''old'']),
        [''vaccinations'', ''somministrazioni-vaccini-latest.csv''] \<mapsto> File (Csv [''old'']),
        [''vaccinations'', ''platea.csv''] \<mapsto> File (Csv [''old'']),
        [''vaccinations'', ''platea-dose-addizionale-booster.csv''] \<mapsto> File (Csv [''old'']))"

section \<open>Properties\<close>

subsection \<open>Paths and the file system\<close>

lemma create_dir_cases:
  assumes "create_dir f dir = Inr f'"
  shows "f' = f \<or> (f dir = None \<and> f' = f(dir \<mapsto> Dir))"
  using assms
  by (auto simp: create_dir_def mkdir_def exists_def split: if_splits)

lemma create_dir_other: "create_dir f dir = Inr f' \<Longrightarrow> p \<noteq> dir \<Longrightarrow> f' p = f p"
  by (drule create_dir_cases) auto

lemma create_dir_exists: "create_dir f dir = Inr f' \<Longrightarrow> exists f' dir"
  by (auto simp: exists_def create_dir_def mkdir_def split: if_splits)

lemma write_file_result: "write_file f p c = Inr f' \<Longrightarrow> f' = f(p \<mapsto> File c)"
  by (auto simp: write_file_def split: if_splits)

lemma create_dir_w_fsys:
  "create_dir_w w dir = (w', r) \<Longrightarrow>
     requests w' = requests w \<and>
     (fsys w' = fsys w \<or> (fsys w dir = None \<and> fsys w' = (fsys w)(dir \<mapsto> Dir)))"
  by (auto simp: create_dir_w_def split: sum.splits dest: create_dir_cases)

lemma for_each_invariant:
  assumes step: "\<And>w x w' r. x \<in> set xs \<Longrightarrow> job w x = (w', r) \<Longrightarrow> R w w'"
    and refl: "\<And>w. R w w"
    and trans: "\<And>a b c. R a b \<Longrightarrow> R b c \<Longrightarrow> R a c"
  shows "R w (fst (for_each job w xs))"
  using step
proof (induction xs arbitrary: w)
  case Nil
  show ?case by (simp add: refl)
next
  case (Cons x xs)
  obtain w' r where j: "job w x = (w', r)" by (cases "job w x")
  have r1: "R w w'" using Cons.prems[of x w w' r] j by simp
  show ?case
  proof (cases r)
    case None
    have "R w' (fst (for_each job w' xs))"
      by (rule Cons.IH) (use Cons.prems in auto)
    then show ?thesis using j None r1 trans by auto
  next
    case (Some e)
    then show ?thesis using j r1 by simp
  qed
qed

lemma foldl_remove1_notin:
  "x \<notin> set ys \<Longrightarrow> foldl (\<lambda>fl y. remove1 y fl) (x # xs) ys = x # foldl (\<lambda>fl y. remove1 y fl) xs ys"
  by (induction ys arbitrary: xs) auto

lemma foldl_remove1_filter:
  "foldl (\<lambda>fl y. remove1 y fl) xs (filter P xs) = filter (\<lambda>x. \<not> P x) xs"
proof (induction xs)
  case Nil
  show ?case by simp
next
  case (Cons x xs)
  show ?case
  proof (cases "P x")
    case True
    then show ?thesis using Cons.IH by simp
  next
    case False
    then have "x \<notin> set (filter P xs)" by auto
    then show ?thesis using False Cons.IH by (simp add: foldl_remove1_notin)
  qed
qed

lemma remove_existing_eq:
  "remove_existing f force files = (if force then files else filter (\<lambda>p. \<not> exists f p) files)"
  by (simp add: remove_existing_def foldl_remove1_filter)

lemma valid_next_day: "valid_date d \<Longrightarrow> valid_date (next_day d)"
  by (auto simp: valid_date_def next_day_def days_in_month_def)

lemma date_less_next_day:
  "valid_date s \<Longrightarrow> valid_date d \<Longrightarrow> date_less s d \<longleftrightarrow> date_le (next_day s) d"
  by (cases s; cases d) (auto simp: valid_date_def next_day_def date_less_def date_le_def)

lemma date_less_irrefl: "\<not> date_less d d"
  by (simp add: date_less_def)

lemma date_le_cases: "date_le s d \<longleftrightarrow> s = d \<or> date_less s d"
  by (simp add: date_le_def)

lemma set_days_from:
  "valid_date s \<Longrightarrow> valid_date e \<Longrightarrow>
   set (days_from s e) = {d. valid_date d \<and> date_le s d \<and> date_le d e}"
proof (induction s e rule: days_from.induct)
  case (1 s e)
  show ?case
  proof (cases "date_le s e")
    case False
    have "\<not> (date_le s d \<and> date_le d e)" for d
      using False by (auto simp: date_le_def date_less_def)
    then show ?thesis using False by (subst days_from.simps) auto
  next
    case True
    have vn: "valid_date (next_day s)" using "1.prems" by (simp add: valid_next_day)
    have ih: "set (days_from (next_day s) e) = {d. valid_date d \<and> date_le (next_day s) d \<and> date_le d e}"
      using "1.IH" "1.prems" True vn by simp
    have "set (days_from s e) = insert s (set (days_from (next_day s) e))"
      using True "1.prems" by (subst days_from.simps) simp
    also have "\<dots> = {d. valid_date d \<and> date_le s d \<and> date_le d e}"
      using ih True "1.prems"(1) date_less_next_day[OF "1.prems"(1)]
      by (auto simp: date_le_cases)
    finally show ?thesis .
  qed
qed

lemma days_from_lower: "d \<in> set (days_from s e) \<Longrightarrow> date_le s d"
proof (induction s e rule: days_from.induct)
  case (1 s e)
  show ?case
  proof (cases "valid_date s \<and> valid_date e \<and> date_le s e")
    case False
    then show ?thesis using "1.prems" by (subst (asm) days_from.simps) auto
  next
    case True
    then have "d = s \<or> d \<in> set (days_from (next_day s) e)"
      using "1.prems" by (subst (asm) days_from.simps) auto
    then show ?thesis
    proof
      assume "d = s" then show ?thesis by (simp add: date_le_def)
    next
      assume m: "d \<in> set (days_from (next_day s) e)"
      then have "date_le (next_day s) d" using "1.IH" True by simp
      moreover have "valid_date d"
        using m set_days_from[of "next_day s" e] True valid_next_day by auto
      ultimately show ?thesis
        using date_less_next_day[of s d] True by (simp add: date_le_def)
    qed
  qed
qed

lemma distinct_days_from: "distinct (days_from s e)"
proof (induction s e rule: days_from.induct)
  case (1 s e)
  show ?case
  proof (cases "valid_date s \<and> valid_date e \<and> date_le s e")
    case False
    then show ?thesis by (subst days_from.simps) auto
  next
    case True
    have "s \<notin> set (days_from (next_day s) e)"
    proof
      assume "s \<in> set (days_from (next_day s) e)"
      then have "date_le (next_day s) s" by (rule days_from_lower)
      then have "date_less s s" using date_less_next_day[of s s] True by simp
      then show False by (simp add: date_less_irrefl)
    qed
    then show ?thesis using True "1.IH" by (subst days_from.simps) simp
  qed
qed

subsection \<open>File names and their dates\<close>

lemma less_ten_cases:
  "(k::nat) < 10 \<Longrightarrow> k = 0 \<or> k = 1 \<or> k = 2 \<or> k = 3 \<or> k = 4 \<or> k = 5 \<or> k = 6 \<or> k = 7 \<or> k = 8 \<or> k = 9"
  by auto

lemma digit_val_nth: "k < 10 \<Longrightarrow> digit_val (''0123456789'' ! k) = Some k"
  by (drule less_ten_cases) (auto simp: digit_val_def)

lemma digit_val_digit_char: "digit_val (digit_char n) = Some (n mod 10)"
  by (simp add: digit_char_def digit_val_nth)

lemma digit_char_not_stripped: "digit_char n \<notin> set ''.csv''"
proof -
  have "n mod 10 < 10" by simp
  then show ?thesis unfolding digit_char_def
    by (drule_tac less_ten_cases) auto
qed

lemma length_strftime_Ymd: "length (strftime_Ymd d) = 8"
  by (simp add: strftime_Ymd_def)

lemma rstrip_csv: "rstrip ''.csv'' (pre @ strftime_Ymd d @ ''.csv'') = pre @ strftime_Ymd d"
  using digit_char_not_stripped[of "day d"]
  by (simp add: rstrip_def strftime_Ymd_def)

lemma last_n_append: "length ys = n \<Longrightarrow> last_n n (xs @ ys) = ys"
  by (simp add: last_n_def)

lemma year_digits:
  fixes y :: nat
  assumes "y < 10000"
  shows "1000 * (y div 1000 mod 10) + 100 * (y div 100 mod 10) + 10 * (y div 10 mod 10) + y mod 10 = y"
proof -
  define a where "a = y mod 10"
  define q1 where "q1 = y div 10"
  define b where "b = q1 mod 10"
  define q2 where "q2 = q1 div 10"
  define c where "c = q2 mod 10"
  define q3 where "q3 = q2 div 10"
  have y: "y = 10 * q1 + a" by (simp add: a_def q1_def)
  have q1: "q1 = 10 * q2 + b" by (simp add: b_def q2_def)
  have q2: "q2 = 10 * q3 + c" by (simp add: c_def q3_def)
  have h: "y div 100 = q2" "y div 1000 = q3"
    by (simp_all add: q1_def q2_def q3_def div_mult2_eq)
  have "q3 < 10" using assms h(2) by simp
  then have m: "q3 mod 10 = q3" by simp
  have "1000 * q3 + 100 * c + 10 * b + a = y"
    using y q1 q2 by simp
  then show ?thesis
    by (simp add: h m a_def[symmetric] b_def[symmetric] c_def[symmetric] q1_def[symmetric])
qed

lemma two_digits: "m < 100 \<Longrightarrow> 10 * (m div 10 mod 10) + m mod 10 = (m::nat)"
  by simp

lemma number_val_4:
  "number_val 0 [digit_char a, digit_char b, digit_char c, digit_char e] =
     Some (1000 * (a mod 10) + 100 * (b mod 10) + 10 * (c mod 10) + e mod 10)"
  by (simp add: digit_val_digit_char)

lemma parse_strftime:
  assumes v: "valid_date d" and y: "year d < 10000"
  shows "parse_Ymd (strftime_Ymd d) = Inr (Daytime d 0)"
proof -
  have m: "month d < 100" and dd: "day d < 100"
    using v by (auto simp: valid_date_def days_in_month_def split: if_splits)
  have t: "take 4 (strftime_Ymd d) =
      [digit_char (year d div 1000), digit_char (year d div 100),
       digit_char (year d div 10), digit_char (year d)]"
    by (simp add: strftime_Ymd_def)
  have 1: "number_val 0 (take 4 (strftime_Ymd d)) = Some (year d)"
    by (simp only: t number_val_4 year_digits[OF y])
  have 2: "number_val 0 (take 2 (drop 4 (strftime_Ymd d))) = Some (month d)"
    using two_digits[OF m] by (simp add: strftime_Ymd_def digit_val_digit_char)
  have 3: "number_val 0 (drop 6 (strftime_Ymd d)) = Some (day d)"
    using two_digits[OF dd] by (simp add: strftime_Ymd_def digit_val_digit_char)
  show ?thesis
    unfolding parse_Ymd_def using v by (simp add: length_strftime_Ymd 1 2 3)
qed

lemma contagions_file_date:
  assumes "valid_date d" and "year d < 10000"
  shows "contagions_date (contagions_file subdir (Daytime d t)) = Inr (Daytime d 0)"
proof -
  let ?pre = "''dpc-covid19-ita-'' @ lstrip ''-'' (lstrip ''dati'' (last subdir)) @ ''-''"
  have "last (contagions_file subdir (Daytime d t)) = ?pre @ strftime_Ymd d @ ''.csv''"
    by (simp add: contagions_file_def joinpath_def)
  then have "rstrip ''.csv'' (last (contagions_file subdir (Daytime d t))) = ?pre @ strftime_Ymd d"
    using rstrip_csv[of ?pre d] by simp
  then have "last_n 8 (rstrip ''.csv'' (last (contagions_file subdir (Daytime d t)))) = strftime_Ymd d"
    using last_n_append[of "strftime_Ymd d" 8 "?pre"] by (simp add: length_strftime_Ymd)
  then show ?thesis
    using assms by (simp add: contagions_date_def parse_strftime)
qed

subsection \<open>The expected files of a date range\<close>

lemma date_le_year: "date_le a b \<Longrightarrow> year a \<le> year b"
  by (auto simp: date_le_def date_less_def)

lemma contagions_file_inject:
  assumes eq: "contagions_file sub1 (Daytime d1 t1) = contagions_file sub2 (Daytime d2 t2)"
    and v: "valid_date d1" "valid_date d2" and y: "year d1 < 10000" "year d2 < 10000"
  shows "sub1 = sub2 \<and> d1 = d2"
proof -
  have s: "sub1 = sub2"
    using eq by (simp add: contagions_file_def joinpath_def)
  have "Inr (Daytime d1 0) = (Inr (Daytime d2 0) :: error + daytime)"
    using contagions_file_date[OF v(1) y(1), of sub1 t1] contagions_file_date[OF v(2) y(2), of sub2 t2] eq
    by simp
  then show ?thesis using s by simp
qed

lemma contagions_files_product:
  "contagions_files dir s e =
     map (\<lambda>(date, subdir). contagions_file subdir date)
       (List.product (date_range s e) (contagions_subdirs dir))"
proof -
  have "concat (map (\<lambda>x. map (\<lambda>y. f y x) ys) xs) = map (\<lambda>(x, y). f y x) (List.product xs ys)"
    for f :: "path \<Rightarrow> daytime \<Rightarrow> path" and xs ys
    by (induction xs) (auto simp: comp_def)
  then show ?thesis by (simp add: contagions_files_def)
qed

lemma distinct_contagions_subdirs: "distinct (contagions_subdirs dir)"
  by (simp add: contagions_subdirs_def joinpath_def)

lemma distinct_date_range: "distinct (date_range s e)"
  by (simp add: date_range_def distinct_map distinct_days_from inj_on_def)

lemma set_date_range:
  "valid_date (date_of s) \<Longrightarrow> valid_date (date_of e) \<Longrightarrow>
   set (date_range s e) = {Daytime d 0 | d. valid_date d \<and> date_le (date_of s) d \<and> date_le d (date_of e)}"
  by (auto simp: date_range_def normalize_ts_def set_days_from)

lemma distinct_contagions_files:
  assumes v: "valid_date (date_of s)" "valid_date (date_of e)" and y: "year (date_of e) < 10000"
  shows "distinct (contagions_files dir s e)"
proof -
  let ?g = "\<lambda>(date, subdir). contagions_file subdir date"
  have "inj_on ?g (set (List.product (date_range s e) (contagions_subdirs dir)))"
  proof (rule inj_onI)
    fix a b
    assume a: "a \<in> set (List.product (date_range s e) (contagions_subdirs dir))"
      and b: "b \<in> set (List.product (date_range s e) (contagions_subdirs dir))"
      and eq: "?g a = ?g b"
    obtain d1 s1 where a': "a = (Daytime d1 0, s1)" "valid_date d1" "date_le d1 (date_of e)"
      using a set_date_range[OF v] by auto
    obtain d2 s2 where b': "b = (Daytime d2 0, s2)" "valid_date d2" "date_le d2 (date_of e)"
      using b set_date_range[OF v] by auto
    have "year d1 < 10000" "year d2 < 10000"
      using a'(3) b'(3) y date_le_year by fastforce+
    then show "a = b"
      using contagions_file_inject[of s1 d1 0 s2 d2 0] eq a' b' by simp
  qed
  moreover have "distinct (List.product (date_range s e) (contagions_subdirs dir))"
    by (simp add: distinct_product distinct_date_range distinct_contagions_subdirs)
  ultimately show ?thesis
    by (simp add: contagions_files_product distinct_map)
qed

lemma set_contagions_files:
  assumes v: "valid_date (date_of s)" "valid_date (date_of e)"
  shows "set (contagions_files dir s e) =
     {contagions_file subdir (Daytime d 0) | subdir d.
        subdir \<in> set (contagions_subdirs dir) \<and> valid_date d \<and>
        date_le (date_of s) d \<and> date_le d (date_of e)}"
  unfolding contagions_files_product using set_date_range[OF v]
  by (auto simp: image_iff) 

lemma days_example:
  "days_from (Date 2021 1 30) (Date 2021 2 2) =
     [Date 2021 1 30, Date 2021 1 31, Date 2021 2 1, Date 2021 2 2]"
  by (simp add: days_from.simps valid_date_def date_le_def date_less_def next_day_def
       days_in_month_def leap_year_def)

lemma contagions_files_example:
  "contagions_files dir (Daytime (Date 2021 1 30) t1) (Daytime (Date 2021 2 2) t2) =
     [dir @ [''dati-andamento-nazionale'', ''dpc-covid19-ita-andamento-nazionale-20210130.csv''],
      dir @ [''dati-regioni'', ''dpc-covid19-ita-regioni-20210130.csv''],
      dir @ [''dati-andamento-nazionale'', ''dpc-covid19-ita-andamento-nazionale-20210131.csv''],
      dir @ [''dati-regioni'', ''dpc-covid19-ita-regioni-20210131.csv''],
      dir @ [''dati-andamento-nazionale'', ''dpc-covid19-ita-andamento-nazionale-20210201.csv''],
      dir @ [''dati-regioni'', ''dpc-covid19-ita-regioni-20210201.csv''],
      dir @ [''dati-andamento-nazionale'', ''dpc-covid19-ita-andamento-nazionale-20210202.csv''],
      dir @ [''dati-regioni'', ''dpc-covid19-ita-regioni-20210202.csv'']]"
proof -
  have r: "date_range (Daytime (Date 2021 1 30) t1) (Daytime (Date 2021 2 2) t2) =
      map (\<lambda>d. Daytime d 0) [Date 2021 1 30, Date 2021 1 31, Date 2021 2 1, Date 2021 2 2]"
    unfolding date_range_def normalize_ts_def daytime.sel by (simp only: days_example)
  show ?thesis
    unfolding contagions_files_def r
    by (simp add: contagions_subdirs_def contagions_file_def joinpath_def lstrip_def
         strftime_Ymd_def digit_char_def)
qed

subsection \<open>One step and one run of the executor\<close>

lemma request_simps [simp]:
  "fsys (request w url) = fsys w" "requests (request w url) = requests w @ [url]"
  by (simp_all add: request_def)

lemma contagions_update_cases:
  assumes "contagions_update nt now w file = (w', r)"
  shows "(r \<noteq> None \<and> w' = w \<and> (\<exists>e. contagions_date file = Inl e)) \<or>
         (\<exists>date. contagions_date file = Inr date \<and>
            requests w' = requests w @ [contagions_url file] \<and>
            ((r \<noteq> None \<and> fsys w' = fsys w) \<or>
             (r = None \<and> (\<exists>df. nt (contagions_url file) = Table df \<and>
                 fsys w' = (fsys w)(file \<mapsto> File (Csv df)))) \<or>
             (r = None \<and> date = normalize_ts now \<and> fsys w' = fsys w \<and>
                 (\<exists>code. nt (contagions_url file) = HttpFail code))))"
  using assms
  by (auto simp: contagions_update_def download_csv_def to_csv_def Let_def
      split: sum.splits response.splits if_splits option.splits dest!: write_file_result)

lemma contagions_update_other:
  "contagions_update nt now w file = (w', r) \<Longrightarrow> p \<noteq> file \<Longrightarrow> fsys w' p = fsys w p"
  by (drule contagions_update_cases) auto

lemma contagions_update_keeps:
  "contagions_update nt now w file = (w', r) \<Longrightarrow> fsys w p \<noteq> None \<Longrightarrow> fsys w' p \<noteq> None"
  by (drule contagions_update_cases) auto

lemma for_each_contagions_other:
  assumes "p \<notin> set xs"
  shows "fsys (fst (for_each (contagions_update nt now) w xs)) p = fsys w p"
proof -
  have "(\<lambda>a b. fsys b p = fsys a p) w (fst (for_each (contagions_update nt now) w xs))"
  proof (rule for_each_invariant)
    fix w x w' r
    assume "x \<in> set xs" "contagions_update nt now w x = (w', r)"
    then show "fsys w' p = fsys w p" using assms contagions_update_other[of nt now w x w' r p] by auto
  qed auto
  then show ?thesis .
qed

lemma for_each_contagions_keeps:
  assumes "fsys w p \<noteq> None"
  shows "fsys (fst (for_each (contagions_update nt now) w xs)) p \<noteq> None"
proof -
  have "(\<lambda>a b. fsys a p \<noteq> None \<longrightarrow> fsys b p \<noteq> None) w (fst (for_each (contagions_update nt now) w xs))"
  proof (rule for_each_invariant)
    fix w x w' r
    assume "contagions_update nt now w x = (w', r)"
    then show "fsys w p \<noteq> None \<longrightarrow> fsys w' p \<noteq> None"
      using contagions_update_keeps by blast
  qed auto
  then show ?thesis using assms by simp
qed

lemma create_dir_w_keeps:
  "create_dir_w w d = (w', r) \<Longrightarrow> fsys w p \<noteq> None \<Longrightarrow> fsys w' p = fsys w p"
  by (drule create_dir_w_fsys) auto

lemma create_dir_w_requests: "create_dir_w w d = (w', r) \<Longrightarrow> requests w' = requests w"
  by (drule create_dir_w_fsys) auto

lemma for_each_create_dir_keeps:
  assumes "fsys w p \<noteq> None"
  shows "fsys (fst (for_each create_dir_w w xs)) p = fsys w p"
proof -
  have "(\<lambda>a b. fsys a p \<noteq> None \<longrightarrow> fsys b p = fsys a p) w (fst (for_each create_dir_w w xs))"
  proof (rule for_each_invariant)
    fix w x w' r
    assume "create_dir_w w x = (w', r)"
    then show "fsys w p \<noteq> None \<longrightarrow> fsys w' p = fsys w p"
      using create_dir_w_keeps by blast
  qed auto
  then show ?thesis using assms by simp
qed

lemma for_each_create_dir_requests:
  "requests (fst (for_each create_dir_w w xs)) = requests w"
proof -
  have "(\<lambda>a b. requests b = requests a) w (fst (for_each create_dir_w w xs))"
    by (rule for_each_invariant) (auto dest: create_dir_w_requests)
  then show ?thesis .
qed

lemma contagions_update_today_missing:
  assumes "contagions_date file = Inr (normalize_ts now)"
    and "nt (contagions_url file) = HttpFail code"
  shows "contagions_update nt now w file = (w\<lparr>requests := requests w @ [contagions_url file]\<rparr>, None)"
  using assms by (simp add: contagions_update_def download_csv_def request_def Let_def)


lemma contagions_update_table:
  assumes "contagions_date file = Inr date" and "nt (contagions_url file) = Table df"
    and "is_dir (fsys w) (parent file)" and "\<not> is_dir (fsys w) file"
  shows "contagions_update nt now w file =
           (w\<lparr>fsys := (fsys w)(file \<mapsto> File (Csv df)),
              requests := requests w @ [contagions_url file]\<rparr>, None)"
proof -
  have "file \<noteq> []" using assms(4) by (auto simp: is_dir_def)
  moreover have "exists (fsys w) (parent file)"
    using assms(3) by (auto simp: is_dir_def exists_def)
  ultimately show ?thesis
    using assms
    by (simp add: contagions_update_def download_csv_def request_def to_csv_def write_file_def)
qed


lemma for_each_contagions_requests:
  "for_each (contagions_update nt now) w xs = (w', None) \<Longrightarrow>
     requests w' = requests w @ map contagions_url xs"
proof (induction xs arbitrary: w)
  case Nil
  then show ?case by simp
next
  case (Cons x xs)
  obtain w1 r where j: "contagions_update nt now w x = (w1, r)"
    by (cases "contagions_update nt now w x")
  have r: "r = None" using Cons.prems j by (cases r) auto
  then have rest: "for_each (contagions_update nt now) w1 xs = (w', None)"
    using Cons.prems j by simp
  have "requests w1 = requests w @ [contagions_url x]"
    using contagions_update_cases[OF j] r by auto
  then show ?case using Cons.IH[OF rest] by simp
qed

lemma for_each_contagions_written:
  "for_each (contagions_update nt now) w xs = (w', None) \<Longrightarrow> p \<in> set xs \<Longrightarrow>
     nt (contagions_url p) = Table df \<Longrightarrow> fsys w' p = Some (File (Csv df))"
proof (induction xs arbitrary: w)
  case Nil
  then show ?case by simp
next
  case (Cons x xs)
  obtain w1 r where j: "contagions_update nt now w x = (w1, r)"
    by (cases "contagions_update nt now w x")
  have r: "r = None" using Cons.prems(1) j by (cases r) auto
  then have rest: "for_each (contagions_update nt now) w1 xs = (w', None)"
    using Cons.prems(1) j by simp
  show ?case
  proof (cases "p \<in> set xs")
    case True
    then show ?thesis using Cons.IH[OF rest] Cons.prems(3) by simp
  next
    case False
    then have px: "p = x" using Cons.prems(2) by simp
    have "fsys w1 p = Some (File (Csv df))"
      using contagions_update_cases[OF j] r px Cons.prems(3) by auto
    moreover have "fsys w' p = fsys w1 p"
      using for_each_contagions_other[OF False, of nt now w1] rest by simp
    ultimately show ?thesis by simp
  qed
qed

lemma for_each_contagions_absent:
  "for_each (contagions_update nt now) w xs = (w', None) \<Longrightarrow> p \<in> set xs \<Longrightarrow>
     fsys w' p = None \<Longrightarrow>
     contagions_date p = Inr (normalize_ts now) \<and> (\<exists>code. nt (contagions_url p) = HttpFail code)"
proof (induction xs arbitrary: w)
  case Nil
  then show ?case by simp
next
  case (Cons x xs)
  obtain w1 r where j: "contagions_update nt now w x = (w1, r)"
    by (cases "contagions_update nt now w x")
  have r: "r = None" using Cons.prems(1) j by (cases r) auto
  then have rest: "for_each (contagions_update nt now) w1 xs = (w', None)"
    using Cons.prems(1) j by simp
  show ?case
  proof (cases "p \<in> set xs")
    case True
    then show ?thesis using Cons.IH[OF rest] Cons.prems(3) by simp
  next
    case False
    then have px: "p = x" using Cons.prems(2) by simp
    have "fsys w1 p = None"
    proof (rule ccontr)
      assume "fsys w1 p \<noteq> None"
      then have "fsys (fst (for_each (contagions_update nt now) w1 xs)) p \<noteq> None"
        by (rule for_each_contagions_keeps)
      then show False using rest Cons.prems(3) by simp
    qed
    then show ?thesis
      using contagions_update_cases[OF j] r px by auto
  qed
qed

lemma for_each_contagions_skipped:
  "(\<And>p. p \<in> set xs \<Longrightarrow>
       contagions_date p = Inr (normalize_ts now) \<and> (\<exists>code. nt (contagions_url p) = HttpFail code)) \<Longrightarrow>
   for_each (contagions_update nt now) w xs =
     (w\<lparr>requests := requests w @ map contagions_url xs\<rparr>, None)"
proof (induction xs arbitrary: w)
  case Nil
  then show ?case by simp
next
  case (Cons x xs)
  obtain code where "contagions_date x = Inr (normalize_ts now)" "nt (contagions_url x) = HttpFail code"
    using Cons.prems[of x] by auto
  then have "contagions_update nt now w x = (w\<lparr>requests := requests w @ [contagions_url x]\<rparr>, None)"
    using contagions_update_today_missing[of x now nt code w]
    by simp
  then show ?case using Cons.IH[of "w\<lparr>requests := requests w @ [contagions_url x]\<rparr>"] Cons.prems
    by simp
qed

lemma exists_keeps: "exists f p \<Longrightarrow> (\<And>q. f q \<noteq> None \<Longrightarrow> g q \<noteq> None) \<Longrightarrow> exists g p"
  by (auto simp: exists_def)

lemma create_dir_w_exists: "create_dir_w w d = (w', None) \<Longrightarrow> exists (fsys w') d"
  by (auto simp: create_dir_w_def split: sum.splits dest: create_dir_exists)

lemma create_dir_w_present: "exists (fsys w) d \<Longrightarrow> create_dir_w w d = (w, None)"
  by (simp add: create_dir_w_def create_dir_def)

lemma for_each_create_dir_exists:
  "for_each create_dir_w w xs = (w', None) \<Longrightarrow> d \<in> set xs \<Longrightarrow> exists (fsys w') d"
proof (induction xs arbitrary: w)
  case Nil
  then show ?case by simp
next
  case (Cons x xs)
  obtain w1 r where j: "create_dir_w w x = (w1, r)" by (cases "create_dir_w w x")
  have r: "r = None" using Cons.prems(1) j by (cases r) auto
  then have rest: "for_each create_dir_w w1 xs = (w', None)"
    using Cons.prems(1) j by simp
  show ?case
  proof (cases "d \<in> set xs")
    case True
    then show ?thesis using Cons.IH[OF rest] by simp
  next
    case False
    then have "d = x" using Cons.prems(2) by simp
    then have e: "exists (fsys w1) d" using j r create_dir_w_exists by simp
    show ?thesis
    proof (rule exists_keeps[OF e])
      fix q assume "fsys w1 q \<noteq> None"
      then show "fsys w' q \<noteq> None"
        using for_each_create_dir_keeps[of w1 q xs] rest by simp
    qed
  qed
qed

lemma for_each_create_dir_present:
  "(\<And>d. d \<in> set xs \<Longrightarrow> exists (fsys w) d) \<Longrightarrow> for_each create_dir_w w xs = (w, None)"
  by (induction xs) (auto simp: create_dir_w_present)

lemma update_contagions_stages:
  assumes "update_contagions nt now w dir start_date end_date force = (w', None)"
  obtains wa wb where
    "create_dir_w w dir = (wa, None)"
    "for_each create_dir_w wa (contagions_subdirs dir) = (wb, None)"
    "for_each (contagions_update nt now) wb
       (contagions_work_list (fsys wb) now dir start_date end_date force) = (w', None)"
  using assms
  by (auto simp: update_contagions_def split: prod.splits option.splits)

lemma contagions_work_list_eq:
  "contagions_work_list f now dir start_date end_date force =
     (if force then contagions_files dir start_date (case end_date of None \<Rightarrow> now | Some e \<Rightarrow> e)
      else filter (\<lambda>p. \<not> exists f p)
             (contagions_files dir start_date (case end_date of None \<Rightarrow> now | Some e \<Rightarrow> e)))"
  by (simp add: contagions_work_list_def remove_existing_eq)

lemma update_contagions_keeps_existing:
  assumes p: "fsys w p \<noteq> None"
  shows "fsys (fst (update_contagions nt now w dir start_date end_date False)) p = fsys w p"
proof -
  obtain wa ra where a: "create_dir_w w dir = (wa, ra)" by (cases "create_dir_w w dir")
  have pa: "fsys wa p = fsys w p" using a p by (rule create_dir_w_keeps)
  show ?thesis
  proof (cases ra)
    case (Some e)
    then show ?thesis using a pa by (simp add: update_contagions_def)
  next
    case None
    obtain wb rb where b: "for_each create_dir_w wa (contagions_subdirs dir) = (wb, rb)"
      by (cases "for_each create_dir_w wa (contagions_subdirs dir)")
    have pb: "fsys wb p = fsys w p"
      using for_each_create_dir_keeps[of wa p "contagions_subdirs dir"] b p pa by simp
    show ?thesis
    proof (cases rb)
      case (Some e)
      then show ?thesis using a None b pb by (simp add: update_contagions_def)
    next
      case n: None
      let ?wl = "contagions_work_list (fsys wb) now dir start_date end_date False"
      have "exists (fsys wb) p" using pb p by (simp add: exists_def)
      then have "p \<notin> set ?wl" by (simp add: contagions_work_list_eq)
      then have "fsys (fst (for_each (contagions_update nt now) wb ?wl)) p = fsys wb p"
        by (rule for_each_contagions_other)
      then show ?thesis using a None b n pb by (simp add: update_contagions_def)
    qed
  qed
qed

subsection \<open>The freshness marker of update_vaccinations\<close>

lemma last_update_file_simps:
  "last_update_file dir \<noteq> dir" "last_update_file dir \<noteq> []"
  "parent (last_update_file dir) = dir"
  "last_update_file dir \<notin> set (vaccinations_files dir)"
  by (simp_all add: last_update_file_def vaccinations_files_def joinpath_def parent_def)

lemma local_timestamp_cong:
  "g (last_update_file dir) = f (last_update_file dir) \<Longrightarrow>
     local_timestamp g dir = local_timestamp f dir"
  by (simp add: local_timestamp_def load_json_file_def exists_def)

lemma local_timestamp_create_dir:
  "create_dir f dir = Inr f1 \<Longrightarrow> local_timestamp f1 dir = local_timestamp f dir"
proof -
  assume "create_dir f dir = Inr f1"
  then have "f1 (last_update_file dir) = f (last_update_file dir)"
    using last_update_file_simps(1)[of dir] by (rule create_dir_other)
  then show ?thesis by (rule local_timestamp_cong)
qed

lemma local_timestamp_not_dir:
  "local_timestamp f dir = Inr t \<Longrightarrow> \<not> is_dir f (last_update_file dir)"
  by (auto simp: local_timestamp_def load_json_file_def exists_def is_dir_def last_update_file_simps
      split: if_splits)


lemma write_marker:
  assumes "is_dir f dir" and "\<not> is_dir f (last_update_file dir)"
  shows "write_file f (last_update_file dir) c = Inr (f(last_update_file dir \<mapsto> File c))"
  using assms by (auto simp: write_file_def last_update_file_simps exists_def is_dir_def)

lemma vaccinations_update_other:
  "vaccinations_update nt w file = (w', r) \<Longrightarrow> p \<noteq> file \<Longrightarrow> fsys w' p = fsys w p"
  by (auto simp: vaccinations_update_def download_csv_def to_csv_def Let_def
      split: sum.splits response.splits option.splits dest!: write_file_result)

lemma for_each_vaccinations_other:
  assumes "p \<notin> set xs"
  shows "fsys (fst (for_each (vaccinations_update nt) w xs)) p = fsys w p"
proof -
  have "(\<lambda>a b. fsys b p = fsys a p) w (fst (for_each (vaccinations_update nt) w xs))"
  proof (rule for_each_invariant)
    fix w x w' r
    assume "x \<in> set xs" "vaccinations_update nt w x = (w', r)"
    then show "fsys w' p = fsys w p"
      using assms vaccinations_update_other[of nt w x w' r p] by auto
  qed auto
  then show ?thesis .
qed

lemma update_vaccinations_unfold:
  assumes "create_dir (fsys w) dir = Inr f1"
    and "local_timestamp (fsys w) dir = Inr t_local"
    and "nt (last_update_url dir) = Document doc"
    and "ultimo_aggiornamento doc = Inr t_remote"
  shows "update_vaccinations nt w dir force =
     (case no_updates force t_remote t_local of
        Inl e \<Rightarrow> (\<lparr>fsys = f1, requests = requests w @ [last_update_url dir]\<rparr>, Some e)
      | Inr True \<Rightarrow> (\<lparr>fsys = f1, requests = requests w @ [last_update_url dir]\<rparr>, None)
      | Inr False \<Rightarrow>
          (case write_file f1 (last_update_file dir) (Json doc) of
             Inl e \<Rightarrow> (\<lparr>fsys = f1, requests = requests w @ [last_update_url dir]\<rparr>, Some e)
           | Inr f3 \<Rightarrow>
               for_each (vaccinations_update nt)
                 \<lparr>fsys = f3, requests = requests w @ [last_update_url dir]\<rparr>
                 (remove_existing f3 force (vaccinations_files dir))))"
proof -
  have l: "local_timestamp f1 dir = Inr t_local"
    using local_timestamp_create_dir[OF assms(1)] assms(2) by simp
  have c: "create_dir_w w dir = (\<lparr>fsys = f1, requests = requests w\<rparr>, None)"
    using assms(1) by (cases w) (simp add: create_dir_w_def)
  have u: "load_json_url nt \<lparr>fsys = f1, requests = requests w\<rparr> (last_update_url dir) =
      (\<lparr>fsys = f1, requests = requests w @ [last_update_url dir]\<rparr>, Inr doc)"
    using assms(3) by (simp add: load_json_url_def request_def)
  show ?thesis
    unfolding update_vaccinations_def c
    by (simp add: l u assms(4) split: sum.splits bool.splits)
qed

subsection \<open>Runs on the example states\<close>

lemmas example_defs =
  example_world_def data_tree_def nazionale_20210315_def regioni_20210315_def regioni_20210316_def
  nazionale_20210315_url_def regioni_20210315_url_def net_nazionale_missing_def
  net_all_published_def synced_world_def stale_world_def empty_fs_def

lemma days_single:
  "days_from (Date 2021 3 15) (Date 2021 3 15) = [Date 2021 3 15]"
  by (simp add: days_from.simps valid_date_def date_le_def date_less_def next_day_def
       days_in_month_def leap_year_def)

lemma files_20210315:
  "contagions_files [''data''] (Daytime (Date 2021 3 15) t1) (Daytime (Date 2021 3 15) t2) =
     [[''data'', ''dati-andamento-nazionale'', ''dpc-covid19-ita-andamento-nazionale-20210315.csv''],
      [''data'', ''dati-regioni'', ''dpc-covid19-ita-regioni-20210315.csv'']]"
proof -
  have r: "date_range (Daytime (Date 2021 3 15) t1) (Daytime (Date 2021 3 15) t2) =
      map (\<lambda>d. Daytime d 0) [Date 2021 3 15]"
    unfolding date_range_def normalize_ts_def daytime.sel by (simp only: days_single)
  show ?thesis
    unfolding contagions_files_def r
    by (simp add: contagions_subdirs_def contagions_file_def joinpath_def lstrip_def
         strftime_Ymd_def digit_char_def)
qed

lemma urls_20210315:
  "contagions_url [''data'', ''dati-andamento-nazionale'', ''dpc-covid19-ita-andamento-nazionale-20210315.csv''] =
     ''https://raw.githubusercontent.com/pcm-dpc/COVID-19/master/dati-andamento-nazionale/dpc-covid19-ita-andamento-nazionale-20210315.csv''"
  "contagions_url [''data'', ''dati-regioni'', ''dpc-covid19-ita-regioni-20210315.csv''] =
     ''https://raw.githubusercontent.com/pcm-dpc/COVID-19/master/dati-regioni/dpc-covid19-ita-regioni-20210315.csv''"
  by (simp_all add: contagions_url_def contagions_remote_def last_n_def)

lemma dates_20210315:
  "contagions_date [''data'', ''dati-andamento-nazionale'', ''dpc-covid19-ita-andamento-nazionale-20210315.csv''] =
     Inr (Daytime (Date 2021 3 15) 0)"
  "contagions_date [''data'', ''dati-regioni'', ''dpc-covid19-ita-regioni-20210315.csv''] =
     Inr (Daytime (Date 2021 3 15) 0)"
  by (simp_all add: contagions_date_def rstrip_def last_n_def parse_Ymd_def digit_val_def
       valid_date_def days_in_month_def)

lemmas run_simps =
  update_contagions_def create_dir_w_def create_dir_def mkdir_def write_file_def to_csv_def
  exists_def is_dir_def parent_def contagions_subdirs_def joinpath_def contagions_work_list_eq
  files_20210315 contagions_update_def dates_20210315 urls_20210315 download_csv_def request_def
  normalize_ts_def Let_def

lemmas vaccini_defs =
  example_marker_def last_update_dataset_url_def consegne_url_def net_vaccini_missing_def
  vaccinations_tree_def marked_tree_def downloaded_tree_def example_world_def empty_fs_def

lemmas vaccini_simps =
  update_vaccinations_def create_dir_w_def create_dir_def mkdir_def write_file_def to_csv_def
  exists_def is_dir_def parent_def joinpath_def local_timestamp_def load_json_file_def
  last_update_file_def last_update_url_def load_json_url_def ultimo_aggiornamento_def
  no_updates_def ts_le_def epoch_utc_def vaccinations_files_def remove_existing_eq
  vaccinations_update_def vaccinations_url_def vaccinations_remote_def download_csv_def
  request_def Let_def

section \<open>The claims\<close>

subsection \<open>C1: the marker file and failed downloads\<close>

text \<open>
  C1, as stated, fails. The claim is that \<open>update_vaccinations\<close> stores the marker file
  only after all four files were downloaded, so that a run in which a download fails
  leaves the marker file as it was. Here the marker file is absent before the run, the
  first of the four downloads fails with HTTP 404, the run raises, and the marker file
  holds the remote marker afterwards.
\<close>

theorem C1_counterexample:
  "fsys example_world (last_update_file [''vaccinations'']) = None \<and>
   update_vaccinations net_vaccini_missing example_world [''vaccinations''] False =
     (\<lparr>fsys = marked_tree, requests = [last_update_dataset_url, consegne_url]\<rparr>,
      Some (RuntimeError consegne_url)) \<and>
   marked_tree (last_update_file [''vaccinations'']) = Some (File (Json example_marker))"
  by (simp add: vaccini_simps vaccini_defs)

text \<open>
  C1, amended. \<open>update_vaccinations\<close> writes the marker file as soon as the comparison
  of the timestamps lets the run proceed, before any of the four files is downloaded:
  every run that gets past the comparison with the target directory in place ends with
  the marker file holding the remote marker just fetched, whatever happens to the
  downloads that follow.
\<close>

theorem C1_marker_written_before_downloads:
  assumes "create_dir (fsys w) dir = Inr f1" and "is_dir f1 dir"
    and "local_timestamp (fsys w) dir = Inr t_local"
    and "nt (last_update_url dir) = Document doc"
    and "ultimo_aggiornamento doc = Inr t_remote"
    and "no_updates force t_remote t_local = Inr False"
  shows
    "fsys (fst (update_vaccinations nt w dir force)) (last_update_file dir) =
       Some (File (Json doc))"
proof -
  let ?f3 = "f1(last_update_file dir \<mapsto> File (Json doc))"
  have "local_timestamp f1 dir = Inr t_local"
    using local_timestamp_create_dir[OF assms(1)] assms(3) by simp
  then have "\<not> is_dir f1 (last_update_file dir)"
    by (rule local_timestamp_not_dir)
  then have wr: "write_file f1 (last_update_file dir) (Json doc) = Inr ?f3"
    using assms(2) by (simp add: write_marker)
  have "last_update_file dir \<notin> set (remove_existing ?f3 force (vaccinations_files dir))"
    using last_update_file_simps(4)[of dir] by (simp add: remove_existing_eq)
  then have "fsys (fst (for_each (vaccinations_update nt)
        \<lparr>fsys = ?f3, requests = requests w @ [last_update_url dir]\<rparr>
        (remove_existing ?f3 force (vaccinations_files dir)))) (last_update_file dir) =
      ?f3 (last_update_file dir)"
    using for_each_vaccinations_other[of "last_update_file dir" _ nt
        "\<lparr>fsys = ?f3, requests = requests w @ [last_update_url dir]\<rparr>"]
    by simp
  then show ?thesis
    using update_vaccinations_unfold[of w dir f1 t_local nt doc t_remote force] assms(1,3,4,5,6) wr
    by simp
qed

theorem C1_marker_written_before_downloads_witness:
  "create_dir (fsys example_world) [''vaccinations''] = Inr vaccinations_tree \<and>
   is_dir vaccinations_tree [''vaccinations''] \<and>
   local_timestamp (fsys example_world) [''vaccinations''] = Inr epoch_utc \<and>
   net_vaccini_missing (last_update_url [''vaccinations'']) = Document example_marker \<and>
   ultimo_aggiornamento example_marker = Inr (Timestamp 1615800000000000000 True) \<and>
   no_updates False (Timestamp 1615800000000000000 True) epoch_utc = Inr False \<and>
   snd (update_vaccinations net_vaccini_missing example_world [''vaccinations''] False) =
     Some (RuntimeError consegne_url) \<and>
   fsys (fst (update_vaccinations net_vaccini_missing example_world [''vaccinations''] False))
     (last_update_file [''vaccinations'']) = Some (File (Json example_marker))"
proof -
  have h1: "create_dir (fsys example_world) [''vaccinations''] = Inr vaccinations_tree"
    by (simp add: vaccini_simps vaccini_defs)
  have h2: "is_dir vaccinations_tree [''vaccinations'']"
    by (simp add: vaccini_simps vaccini_defs)
  have h3: "local_timestamp (fsys example_world) [''vaccinations''] = Inr epoch_utc"
    by (simp add: vaccini_simps vaccini_defs)
  have h4: "net_vaccini_missing (last_update_url [''vaccinations'']) = Document example_marker"
    by (simp add: vaccini_simps vaccini_defs)
  have h5: "ultimo_aggiornamento example_marker = Inr (Timestamp 1615800000000000000 True)"
    by (simp add: vaccini_simps vaccini_defs)
  have h6: "no_updates False (Timestamp 1615800000000000000 True) epoch_utc = Inr False"
    by (simp add: vaccini_simps)
  have e: "snd (update_vaccinations net_vaccini_missing example_world [''vaccinations''] False) =
     Some (RuntimeError consegne_url)"
    by (simp add: vaccini_simps vaccini_defs)
  show ?thesis
    using C1_marker_written_before_downloads[of example_world "[''vaccinations'']"
        vaccinations_tree epoch_utc net_vaccini_missing example_marker
        "Timestamp 1615800000000000000 True" False] h1 h2 h3 h4 h5 h6 e
    by simp
qed

subsection \<open>C2: nothing to do when the remote marker is not newer\<close>

text \<open>
  C2. When \<open>force\<close> is off and the remote timestamp is not greater than the local one,
  \<open>update_vaccinations\<close> returns without an exception, the only request it has made is
  the one for the remote marker, and the file system is the one \<open>create_dir\<close> left:
  the marker file and the four dataset files are what they were.
\<close>

theorem C2_no_updates:
  assumes "create_dir (fsys w) dir = Inr f1"
    and "local_timestamp (fsys w) dir = Inr t_local"
    and "nt (last_update_url dir) = Document doc"
    and "ultimo_aggiornamento doc = Inr t_remote"
    and "ts_le t_remote t_local = Inr True"
  shows
    "update_vaccinations nt w dir False =
       (\<lparr>fsys = f1, requests = requests w @ [last_update_url dir]\<rparr>, None) \<and>
     f1 (last_update_file dir) = fsys w (last_update_file dir) \<and>
     (\<forall>p \<in> set (vaccinations_files dir). f1 p = fsys w p)"
proof -
  have "update_vaccinations nt w dir False =
       (\<lparr>fsys = f1, requests = requests w @ [last_update_url dir]\<rparr>, None)"
    using update_vaccinations_unfold[of w dir f1 t_local nt doc t_remote False] assms
    by (simp add: no_updates_def)
  moreover have "f1 p = fsys w p" if "p \<noteq> dir" for p
    using assms(1) that by (rule create_dir_other)
  moreover have "p \<noteq> dir" if "p \<in> set (vaccinations_files dir)" for p
    using that by (auto simp: vaccinations_files_def joinpath_def)
  ultimately show ?thesis using last_update_file_simps(1)[of dir] by simp
qed

theorem C2_no_updates_witness:
  "create_dir marked_tree [''vaccinations''] = Inr marked_tree \<and>
   local_timestamp marked_tree [''vaccinations''] = Inr (Timestamp 1615800000000000000 True) \<and>
   net_vaccini_missing (last_update_url [''vaccinations'']) = Document example_marker \<and>
   ultimo_aggiornamento example_marker = Inr (Timestamp 1615800000000000000 True) \<and>
   ts_le (Timestamp 1615800000000000000 True) (Timestamp 1615800000000000000 True) = Inr True \<and>
   update_vaccinations net_vaccini_missing \<lparr>fsys = marked_tree, requests = []\<rparr>
     [''vaccinations''] False =
     (\<lparr>fsys = marked_tree, requests = [last_update_url [''vaccinations'']]\<rparr>, None)"
proof -
  have h1: "create_dir (fsys \<lparr>fsys = marked_tree, requests = []\<rparr>) [''vaccinations''] = Inr marked_tree"
    by (simp add: vaccini_simps vaccini_defs)
  have h2: "local_timestamp (fsys \<lparr>fsys = marked_tree, requests = []\<rparr>) [''vaccinations''] =
      Inr (Timestamp 1615800000000000000 True)"
    by (simp add: vaccini_simps vaccini_defs)
  have h3: "net_vaccini_missing (last_update_url [''vaccinations'']) = Document example_marker"
    by (simp add: vaccini_simps vaccini_defs)
  have h4: "ultimo_aggiornamento example_marker = Inr (Timestamp 1615800000000000000 True)"
    by (simp add: vaccini_simps vaccini_defs)
  have h5: "ts_le (Timestamp 1615800000000000000 True) (Timestamp 1615800000000000000 True) = Inr True"
    by (simp add: ts_le_def)
  show ?thesis
    using C2_no_updates[of "\<lparr>fsys = marked_tree, requests = []\<rparr>" "[''vaccinations'']" marked_tree
        "Timestamp 1615800000000000000 True" net_vaccini_missing example_marker
        "Timestamp 1615800000000000000 True"] h1 h2 h3 h4 h5
    by simp
qed

subsection \<open>C3: the files of a date range\<close>

text \<open>
  C3. The files that \<open>update_contagions\<close> enumerates for a start and an end date are,
  without repetition, the file of every calendar day from the day of the start to the
  day of the end, both included, in each of the two subdirectories; the times of day
  of the two dates play no part. From 2021-01-30 to 2021-02-02 these are the eight
  files of the four days 01-30, 01-31, 02-01 and 02-02.
\<close>

theorem C3_contagions_files:
  assumes "valid_date (date_of start_date)" and "valid_date (date_of end_date)"
    and "year (date_of end_date) < 10000"
  shows
    "distinct (contagions_files dir start_date end_date) \<and>
     set (contagions_files dir start_date end_date) =
       {contagions_file subdir (Daytime d 0) | subdir d.
          subdir \<in> set (contagions_subdirs dir) \<and> valid_date d \<and>
          date_le (date_of start_date) d \<and> date_le d (date_of end_date)} \<and>
     length (contagions_files dir start_date end_date) =
       2 * card {d. valid_date d \<and> date_le (date_of start_date) d \<and> date_le d (date_of end_date)} \<and>
     contagions_files dir (Daytime (Date 2021 1 30) t1) (Daytime (Date 2021 2 2) t2) =
       [dir @ [''dati-andamento-nazionale'', ''dpc-covid19-ita-andamento-nazionale-20210130.csv''],
        dir @ [''dati-regioni'', ''dpc-covid19-ita-regioni-20210130.csv''],
        dir @ [''dati-andamento-nazionale'', ''dpc-covid19-ita-andamento-nazionale-20210131.csv''],
        dir @ [''dati-regioni'', ''dpc-covid19-ita-regioni-20210131.csv''],
        dir @ [''dati-andamento-nazionale'', ''dpc-covid19-ita-andamento-nazionale-20210201.csv''],
        dir @ [''dati-regioni'', ''dpc-covid19-ita-regioni-20210201.csv''],
        dir @ [''dati-andamento-nazionale'', ''dpc-covid19-ita-andamento-nazionale-20210202.csv''],
        dir @ [''dati-regioni'', ''dpc-covid19-ita-regioni-20210202.csv'']]"
proof -
  have "length (contagions_files dir start_date end_date) =
      2 * length (days_from (date_of start_date) (date_of end_date))"
    by (simp add: contagions_files_product date_range_def normalize_ts_def contagions_subdirs_def)
  also have "length (days_from (date_of start_date) (date_of end_date)) =
      card (set (days_from (date_of start_date) (date_of end_date)))"
    by (simp add: distinct_card distinct_days_from)
  finally have "length (contagions_files dir start_date end_date) =
      2 * card {d. valid_date d \<and> date_le (date_of start_date) d \<and> date_le d (date_of end_date)}"
    using assms(1,2) by (simp add: set_days_from)
  then show ?thesis
    using distinct_contagions_files[OF assms] set_contagions_files[OF assms(1,2)]
      contagions_files_example
    by simp
qed

theorem C3_contagions_files_witness:
  "valid_date (Date 2020 2 28) \<and> valid_date (Date 2020 3 1) \<and>
   distinct (contagions_files [''data''] (Daytime (Date 2020 2 28) 7) (Daytime (Date 2020 3 1) 9)) \<and>
   length (contagions_files [''data''] (Daytime (Date 2020 2 28) 7) (Daytime (Date 2020 3 1) 9)) =
     2 * card {d. valid_date d \<and> date_le (Date 2020 2 28) d \<and> date_le d (Date 2020 3 1)}"
  using C3_contagions_files[of "Daytime (Date 2020 2 28) 7" "Daytime (Date 2020 3 1) 9" "[''data'']"]
  by (simp add: valid_date_def days_in_month_def leap_year_def)

subsection \<open>C4: running update_contagions twice\<close>

text \<open>
  C4, as stated, fails. The claim is that the second of two identical runs fetches
  nothing that is present locally, except that the file of the current date is always
  fetched again. Here both runs happen on 2021-03-15, the first run downloads the two
  files of that day, and the second run requests nothing: the files of the current date
  are pruned like any other file that exists.
\<close>

theorem C4_counterexample:
  "contagions_date nazionale_20210315 = Inr (normalize_ts (Daytime (Date 2021 3 15) 43200)) \<and>
   update_contagions net_all_published (Daytime (Date 2021 3 15) 43200) example_world
     [''data''] (Daytime (Date 2021 3 15) 0) None False = (synced_world, None) \<and>
   update_contagions net_all_published (Daytime (Date 2021 3 15) 43200) synced_world
     [''data''] (Daytime (Date 2021 3 15) 0) None False = (synced_world, None)"
  by (simp add: run_simps example_defs)

text \<open>
  C4, amended. After a run of \<open>update_contagions\<close> with \<open>force\<close> off that raised
  nothing, a second run with the same arguments, clock reading and network requests
  exactly the expected files that are still absent, writes nothing and raises
  nothing; each of these files is dated today and its download fails with an HTTP
  error. No file that exists locally is requested, the file of the current date
  included.
\<close>

theorem C4_second_run:
  assumes run1: "update_contagions nt now w dir start_date end_date False = (w1, None)"
  shows
    "update_contagions nt now w1 dir start_date end_date False =
       (w1\<lparr>requests := requests w1 @
            map contagions_url (contagions_work_list (fsys w1) now dir start_date end_date False)\<rparr>,
        None) \<and>
     (\<forall>p \<in> set (contagions_work_list (fsys w1) now dir start_date end_date False).
        \<not> exists (fsys w1) p \<and> contagions_date p = Inr (normalize_ts now) \<and>
        (\<exists>code. nt (contagions_url p) = HttpFail code))"
proof -
  obtain wa wb where
    a: "create_dir_w w dir = (wa, None)" and
    b: "for_each create_dir_w wa (contagions_subdirs dir) = (wb, None)" and
    c: "for_each (contagions_update nt now) wb
          (contagions_work_list (fsys wb) now dir start_date end_date False) = (w1, None)"
    using update_contagions_stages[OF run1] by blast
  let ?files = "contagions_files dir start_date (case end_date of None \<Rightarrow> now | Some e \<Rightarrow> e)"
  let ?wl1 = "contagions_work_list (fsys wb) now dir start_date end_date False"
  let ?wl2 = "contagions_work_list (fsys w1) now dir start_date end_date False"
  have keep_b1: "fsys wb q \<noteq> None \<Longrightarrow> fsys w1 q \<noteq> None" for q
    using for_each_contagions_keeps[of wb q nt now ?wl1] c by simp
  have keep_ab: "fsys wa q \<noteq> None \<Longrightarrow> fsys wb q \<noteq> None" for q
    using for_each_create_dir_keeps[of wa q "contagions_subdirs dir"] b by simp
  have "exists (fsys wa) dir" using a by (rule create_dir_w_exists)
  then have "exists (fsys wb) dir" using keep_ab by (rule exists_keeps)
  then have ex_dir: "exists (fsys w1) dir" using keep_b1 by (rule exists_keeps)
  have ex_sub: "exists (fsys w1) d" if "d \<in> set (contagions_subdirs dir)" for d
  proof -
    have "exists (fsys wb) d" using b that by (rule for_each_create_dir_exists)
    then show ?thesis using keep_b1 by (rule exists_keeps)
  qed
  have item: "\<not> exists (fsys w1) p \<and> contagions_date p = Inr (normalize_ts now) \<and>
        (\<exists>code. nt (contagions_url p) = HttpFail code)" if p: "p \<in> set ?wl2" for p
  proof -
    have pf: "p \<in> set ?files" and ne: "\<not> exists (fsys w1) p"
      using p by (auto simp: contagions_work_list_eq)
    have none1: "fsys w1 p = None" using ne by (auto simp: exists_def)
    have "\<not> exists (fsys wb) p"
      using ne keep_b1 exists_keeps by blast
    then have "p \<in> set ?wl1" using pf by (simp add: contagions_work_list_eq)
    then show ?thesis
      using for_each_contagions_absent[OF c _ none1] ne by simp
  qed
  have "for_each (contagions_update nt now) w1 ?wl2 =
      (w1\<lparr>requests := requests w1 @ map contagions_url ?wl2\<rparr>, None)"
    by (rule for_each_contagions_skipped) (use item in blast)
  moreover have "create_dir_w w1 dir = (w1, None)"
    using ex_dir by (rule create_dir_w_present)
  moreover have "for_each create_dir_w w1 (contagions_subdirs dir) = (w1, None)"
    by (rule for_each_create_dir_present) (rule ex_sub)
  ultimately have "update_contagions nt now w1 dir start_date end_date False =
      (w1\<lparr>requests := requests w1 @ map contagions_url ?wl2\<rparr>, None)"
    by (simp add: update_contagions_def)
  then show ?thesis using item by blast
qed

theorem C4_second_run_witness:
  "update_contagions net_nazionale_missing (Daytime (Date 2021 3 15) 43200) example_world
     [''data''] (Daytime (Date 2021 3 15) 0) None False =
     (\<lparr>fsys = data_tree(regioni_20210315 \<mapsto> File (Csv [''data,totale_casi''])),
       requests = [nazionale_20210315_url, regioni_20210315_url]\<rparr>, None) \<and>
   update_contagions net_nazionale_missing (Daytime (Date 2021 3 15) 43200)
     \<lparr>fsys = data_tree(regioni_20210315 \<mapsto> File (Csv [''data,totale_casi''])),
      requests = [nazionale_20210315_url, regioni_20210315_url]\<rparr>
     [''data''] (Daytime (Date 2021 3 15) 0) None False =
     (\<lparr>fsys = data_tree(regioni_20210315 \<mapsto> File (Csv [''data,totale_casi''])),
       requests = [nazionale_20210315_url, regioni_20210315_url, nazionale_20210315_url]\<rparr>, None)"
proof -
  let ?w1 = "\<lparr>fsys = data_tree(regioni_20210315 \<mapsto> File (Csv [''data,totale_casi''])),
       requests = [nazionale_20210315_url, regioni_20210315_url]\<rparr>"
  have h1: "update_contagions net_nazionale_missing (Daytime (Date 2021 3 15) 43200) example_world
     [''data''] (Daytime (Date 2021 3 15) 0) None False = (?w1, None)"
    by (simp add: run_simps example_defs)
  have wl: "contagions_work_list (data_tree(regioni_20210315 \<mapsto> File (Csv [''data,totale_casi'']))) (Daytime (Date 2021 3 15) 43200) [''data'']
      (Daytime (Date 2021 3 15) 0) None False = [nazionale_20210315]"
    by (simp add: run_simps example_defs)
  have u: "contagions_url nazionale_20210315 = nazionale_20210315_url"
    by (simp add: urls_20210315 example_defs)
  show ?thesis
    using C4_second_run[OF h1] h1 by (simp add: wl u)
qed

subsection \<open>C5: a file of the current date that is not published yet\<close>

text \<open>
  C5. When the date of a work item is the current date and its download fails with an
  HTTP error, the step of \<open>update_contagions\<close> for it requests the URL, writes no file
  and raises nothing, and the run goes on with the remaining items.
\<close>

theorem C5_today_not_found_skipped:
  assumes "contagions_date file = Inr (normalize_ts now)"
    and "nt (contagions_url file) = HttpFail code"
  shows
    "contagions_update nt now w file = (w\<lparr>requests := requests w @ [contagions_url file]\<rparr>, None) \<and>
     for_each (contagions_update nt now) w (file # rest) =
       for_each (contagions_update nt now) (w\<lparr>requests := requests w @ [contagions_url file]\<rparr>) rest"
  using assms contagions_update_today_missing[of "file" now nt code w]
  by simp

theorem C5_today_not_found_skipped_witness:
  "contagions_date nazionale_20210315 = Inr (normalize_ts (Daytime (Date 2021 3 15) 43200)) \<and>
   net_nazionale_missing (contagions_url nazionale_20210315) = HttpFail 404 \<and>
   contagions_update net_nazionale_missing (Daytime (Date 2021 3 15) 43200) example_world
     nazionale_20210315 =
     (example_world\<lparr>requests := requests example_world @ [contagions_url nazionale_20210315]\<rparr>, None) \<and>
   for_each (contagions_update net_nazionale_missing (Daytime (Date 2021 3 15) 43200)) example_world
     [nazionale_20210315, regioni_20210315] =
     for_each (contagions_update net_nazionale_missing (Daytime (Date 2021 3 15) 43200))
       (example_world\<lparr>requests := requests example_world @ [contagions_url nazionale_20210315]\<rparr>)
       [regioni_20210315]"
proof -
  have h1: "contagions_date nazionale_20210315 = Inr (normalize_ts (Daytime (Date 2021 3 15) 43200))"
    by (simp add: dates_20210315 nazionale_20210315_def normalize_ts_def)
  have h2: "net_nazionale_missing (contagions_url nazionale_20210315) = HttpFail 404"
    by (simp add: urls_20210315 example_defs)
  show ?thesis
    using C5_today_not_found_skipped[of nazionale_20210315 "Daytime (Date 2021 3 15) 43200"
        net_nazionale_missing 404 example_world "[regioni_20210315]"] h1 h2
    by simp
qed

subsection \<open>C6: a file of a past date that is missing\<close>




subsection \<open>C7: create_dir\<close>

text \<open>
  C7, as stated, fails. The claim is that \<open>create_dir\<close> creates the directory together
  with any parent that is missing. It does not: \<open>mkdir\<close> is called without \<open>parents\<close>,
  so a missing parent is an error, and nothing is created.
\<close>

theorem C7_counterexample:
  "\<not> exists empty_fs [''share'', ''contagions''] \<and>
   create_dir empty_fs [''share'', ''contagions''] = Inl FileNotFoundError"
  by (simp add: create_dir_def mkdir_def exists_def parent_def empty_fs_def)

text \<open>
  C7, amended. \<open>create_dir\<close> leaves the file system as it is when the path exists;
  when the path is absent and its parent is a directory, it creates the directory
  and nothing else; when the parent does not exist either, it raises
  \<open>FileNotFoundError\<close>; and it never raises \<open>FileExistsError\<close>.
\<close>

theorem C7_create_dir:
  "(exists f dir \<longrightarrow> create_dir f dir = Inr f) \<and>
   (\<not> exists f dir \<and> is_dir f (parent dir) \<longrightarrow> create_dir f dir = Inr (f(dir \<mapsto> Dir))) \<and>
   (\<not> exists f dir \<and> \<not> exists f (parent dir) \<longrightarrow> create_dir f dir = Inl FileNotFoundError) \<and>
   create_dir f dir \<noteq> Inl FileExistsError"
  by (auto simp: create_dir_def mkdir_def exists_def is_dir_def)

theorem C7_create_dir_witness:
  "create_dir (empty_fs([''share''] \<mapsto> Dir)) [''share''] = Inr (empty_fs([''share''] \<mapsto> Dir)) \<and>
   create_dir empty_fs [''share''] = Inr (empty_fs([''share''] \<mapsto> Dir)) \<and>
   create_dir empty_fs [''share'', ''contagions''] = Inl FileNotFoundError"
  using C7_create_dir[of "empty_fs([''share''] \<mapsto> Dir)" "[''share'']"]
        C7_create_dir[of empty_fs "[''share'']"]
        C7_create_dir[of empty_fs "[''share'', ''contagions'']"]
  by (simp add: exists_def is_dir_def parent_def empty_fs_def)

subsection \<open>C8: the first synchronisation\<close>



subsection \<open>C9: existing files and the force flag\<close>

text \<open>
  C9. With \<open>force\<close> off, whatever exists in the file system before a run of
  \<open>update_contagions\<close> is the same after it. With \<open>force\<close> on, the work list is the whole
  list of expected files, whether they exist or not; a run that raises nothing has
  requested every one of them, and every expected file whose download gave a table
  holds that table afterwards; and a step whose download gives a table replaces what
  the file held.
\<close>

theorem C9_force_and_existing_files:
  "(fsys w p \<noteq> None \<longrightarrow>
      fsys (fst (update_contagions nt now w dir start_date end_date False)) p = fsys w p) \<and>
   contagions_work_list f now dir start_date end_date True =
     contagions_files dir start_date (case end_date of None \<Rightarrow> now | Some e \<Rightarrow> e) \<and>
   (update_contagions nt now w dir start_date end_date True = (w', None) \<longrightarrow>
      requests w' = requests w @
        map contagions_url
          (contagions_files dir start_date (case end_date of None \<Rightarrow> now | Some e \<Rightarrow> e)) \<and>
      (\<forall>q df. q \<in> set (contagions_files dir start_date
                           (case end_date of None \<Rightarrow> now | Some e \<Rightarrow> e)) \<and>
               nt (contagions_url q) = Table df \<longrightarrow>
               fsys w' q = Some (File (Csv df)))) \<and>
   (contagions_date item = Inr date \<and> nt (contagions_url item) = Table df' \<and>
    is_dir (fsys w) (parent item) \<and> \<not> is_dir (fsys w) item \<longrightarrow>
      contagions_update nt now w item =
        (w\<lparr>fsys := (fsys w)(item \<mapsto> File (Csv df')),
           requests := requests w @ [contagions_url item]\<rparr>, None))"
proof -
  let ?files = "contagions_files dir start_date (case end_date of None \<Rightarrow> now | Some e \<Rightarrow> e)"
  have third: "requests w' = requests w @ map contagions_url ?files \<and>
      (\<forall>q df. q \<in> set ?files \<and> nt (contagions_url q) = Table df \<longrightarrow>
               fsys w' q = Some (File (Csv df)))"
    if run: "update_contagions nt now w dir start_date end_date True = (w', None)"
  proof -
    obtain wa wb where
      a: "create_dir_w w dir = (wa, None)" and
      b: "for_each create_dir_w wa (contagions_subdirs dir) = (wb, None)" and
      c: "for_each (contagions_update nt now) wb
            (contagions_work_list (fsys wb) now dir start_date end_date True) = (w', None)"
      using update_contagions_stages[OF run] by blast
    have c': "for_each (contagions_update nt now) wb ?files = (w', None)"
      using c by (simp add: contagions_work_list_eq)
    have "requests wb = requests w"
      using create_dir_w_requests[OF a] for_each_create_dir_requests[of wa "contagions_subdirs dir"] b
      by simp
    then have "requests w' = requests w @ map contagions_url ?files"
      using for_each_contagions_requests[OF c'] by simp
    moreover have "fsys w' q = Some (File (Csv df))"
      if "q \<in> set ?files" "nt (contagions_url q) = Table df" for q df
      using for_each_contagions_written[OF c' that] .
    ultimately show ?thesis by blast
  qed
  have fourth: "contagions_update nt now w item =
        (w\<lparr>fsys := (fsys w)(item \<mapsto> File (Csv df')),
           requests := requests w @ [contagions_url item]\<rparr>, None)"
    if "contagions_date item = Inr date" "nt (contagions_url item) = Table df'"
       "is_dir (fsys w) (parent item)" "\<not> is_dir (fsys w) item"
    using that contagions_update_table[of item date nt df' w now] by simp
  show ?thesis
    using update_contagions_keeps_existing[of w p nt now dir start_date end_date]
      contagions_work_list_eq[of f now dir start_date end_date True] third fourth
    by simp
qed

theorem C9_force_and_existing_files_witness:
  "fsys stale_world nazionale_20210315 = Some (File (Csv [''old''])) \<and>
   fsys (fst (update_contagions net_all_published (Daytime (Date 2021 3 20) 0) stale_world
               [''data''] (Daytime (Date 2021 3 15) 0) (Some (Daytime (Date 2021 3 15) 0)) False))
     nazionale_20210315 = Some (File (Csv [''old''])) \<and>
   update_contagions net_all_published (Daytime (Date 2021 3 20) 0) stale_world
     [''data''] (Daytime (Date 2021 3 15) 0) (Some (Daytime (Date 2021 3 15) 0)) True =
     (synced_world, None) \<and>
   nazionale_20210315 \<in> set (contagions_files [''data''] (Daytime (Date 2021 3 15) 0)
                                (Daytime (Date 2021 3 15) 0)) \<and>
   net_all_published (contagions_url nazionale_20210315) = Table [''data,totale_casi''] \<and>
   requests synced_world =
     requests stale_world @
       map contagions_url
         (contagions_files [''data''] (Daytime (Date 2021 3 15) 0) (Daytime (Date 2021 3 15) 0)) \<and>
   fsys synced_world nazionale_20210315 = Some (File (Csv [''data,totale_casi''])) \<and>
   contagions_date nazionale_20210315 = Inr (Daytime (Date 2021 3 15) 0) \<and>
   is_dir (fsys stale_world) (parent nazionale_20210315) \<and>
   \<not> is_dir (fsys stale_world) nazionale_20210315 \<and>
   contagions_update net_all_published (Daytime (Date 2021 3 20) 0) stale_world
     nazionale_20210315 =
     (stale_world\<lparr>fsys := (fsys stale_world)(nazionale_20210315 \<mapsto> File (Csv [''data,totale_casi''])),
        requests := requests stale_world @ [contagions_url nazionale_20210315]\<rparr>, None)"
proof -
  have h1: "fsys stale_world nazionale_20210315 \<noteq> None"
    by (simp add: example_defs)
  have h2: "update_contagions net_all_published (Daytime (Date 2021 3 20) 0) stale_world
     [''data''] (Daytime (Date 2021 3 15) 0) (Some (Daytime (Date 2021 3 15) 0)) True =
     (synced_world, None)"
    by (simp add: run_simps example_defs)
  have h3: "nazionale_20210315 \<in> set (contagions_files [''data''] (Daytime (Date 2021 3 15) 0)
                                (Daytime (Date 2021 3 15) 0))"
    by (simp add: files_20210315 example_defs)
  have h4: "net_all_published (contagions_url nazionale_20210315) = Table [''data,totale_casi'']"
    by (simp add: example_defs)
  have old: "fsys stale_world nazionale_20210315 = Some (File (Csv [''old'']))"
    by (simp add: example_defs)
  note c9 = C9_force_and_existing_files[of stale_world nazionale_20210315 net_all_published
        "Daytime (Date 2021 3 20) 0" "[''data'']" "Daytime (Date 2021 3 15) 0"
        "Some (Daytime (Date 2021 3 15) 0)" empty_fs synced_world nazionale_20210315
        "Daytime (Date 2021 3 15) 0" "[''data,totale_casi'']"]
  have a: "fsys (fst (update_contagions net_all_published (Daytime (Date 2021 3 20) 0) stale_world
               [''data''] (Daytime (Date 2021 3 15) 0) (Some (Daytime (Date 2021 3 15) 0)) False))
     nazionale_20210315 = Some (File (Csv [''old'']))"
    using c9 h1 old by simp
  have b: "requests synced_world =
     requests stale_world @
       map contagions_url
         (contagions_files [''data''] (Daytime (Date 2021 3 15) 0) (Daytime (Date 2021 3 15) 0))"
    using c9 h2 by simp
  have c: "fsys synced_world nazionale_20210315 = Some (File (Csv [''data,totale_casi'']))"
    using c9 h2 h3 h4 by simp
  have h5: "contagions_date nazionale_20210315 = Inr (Daytime (Date 2021 3 15) 0)"
    by (simp add: dates_20210315 nazionale_20210315_def)
  have h6: "is_dir (fsys stale_world) (parent nazionale_20210315)"
    by (simp add: is_dir_def parent_def example_defs)
  have h7: "\<not> is_dir (fsys stale_world) nazionale_20210315"
    by (simp add: is_dir_def example_defs)
  have d: "contagions_update net_all_published (Daytime (Date 2021 3 20) 0) stale_world
     nazionale_20210315 =
     (stale_world\<lparr>fsys := (fsys stale_world)(nazionale_20210315 \<mapsto> File (Csv [''data,totale_casi''])),
        requests := requests stale_world @ [contagions_url nazionale_20210315]\<rparr>, None)"
    using c9 h4 h5 h6 h7 by simp
  show ?thesis using old a h2 h3 h4 b c h5 h6 h7 d by simp
qed

subsection \<open>C10: all four files present and a newer remote marker\<close>

text \<open>
  C10. When \<open>force\<close> is off, the four dataset files exist and the remote timestamp is
  greater than the local one, \<open>update_vaccinations\<close> requests the remote marker and
  nothing else, writes the remote marker to the marker file and nothing else, and
  returns without an exception: the dataset files keep their old content while the
  marker advances.
\<close>

theorem C10_marker_advances_without_download:
  assumes "is_dir (fsys w) dir"
    and "\<forall>p \<in> set (vaccinations_files dir). exists (fsys w) p"
    and "local_timestamp (fsys w) dir = Inr t_local"
    and "nt (last_update_url dir) = Document doc"
    and "ultimo_aggiornamento doc = Inr t_remote"
    and "ts_le t_remote t_local = Inr False"
  shows
    "update_vaccinations nt w dir False =
       (\<lparr>fsys = (fsys w)(last_update_file dir \<mapsto> File (Json doc)),
         requests = requests w @ [last_update_url dir]\<rparr>, None)"
proof -
  let ?f3 = "(fsys w)(last_update_file dir \<mapsto> File (Json doc))"
  have c: "create_dir (fsys w) dir = Inr (fsys w)"
    using assms(1) by (auto simp: create_dir_def is_dir_def exists_def)
  have "\<not> is_dir (fsys w) (last_update_file dir)"
    using assms(3) by (rule local_timestamp_not_dir)
  then have wr: "write_file (fsys w) (last_update_file dir) (Json doc) = Inr ?f3"
    using assms(1) by (simp add: write_marker)
  have "exists ?f3 p" if "p \<in> set (vaccinations_files dir)" for p
    using assms(2) that by (auto simp: exists_def)
  then have "remove_existing ?f3 False (vaccinations_files dir) = []"
    by (simp add: remove_existing_eq)
  then show ?thesis
    using update_vaccinations_unfold[of w dir "fsys w" t_local nt doc t_remote False] c assms(3,4,5,6) wr
    by (simp add: no_updates_def)
qed

theorem C10_marker_advances_without_download_witness:
  "is_dir downloaded_tree [''vaccinations''] \<and>
   exists downloaded_tree [''vaccinations'', ''consegne-vaccini-latest.csv''] \<and>
   exists downloaded_tree [''vaccinations'', ''somministrazioni-vaccini-latest.csv''] \<and>
   exists downloaded_tree [''vaccinations'', ''platea.csv''] \<and>
   exists downloaded_tree [''vaccinations'', ''platea-dose-addizionale-booster.csv''] \<and>
   local_timestamp downloaded_tree [''vaccinations''] = Inr epoch_utc \<and>
   net_vaccini_missing (last_update_url [''vaccinations'']) = Document example_marker \<and>
   ultimo_aggiornamento example_marker = Inr (Timestamp 1615800000000000000 True) \<and>
   ts_le (Timestamp 1615800000000000000 True) epoch_utc = Inr False \<and>
   update_vaccinations net_vaccini_missing \<lparr>fsys = downloaded_tree, requests = []\<rparr>
     [''vaccinations''] False =
     (\<lparr>fsys = downloaded_tree(last_update_file [''vaccinations''] \<mapsto> File (Json example_marker)),
       requests = [last_update_url [''vaccinations'']]\<rparr>, None)"
proof -
  have h1: "is_dir (fsys \<lparr>fsys = downloaded_tree, requests = []\<rparr>) [''vaccinations'']"
    by (simp add: vaccini_simps vaccini_defs)
  have h2: "\<forall>p \<in> set (vaccinations_files [''vaccinations'']).
      exists (fsys \<lparr>fsys = downloaded_tree, requests = []\<rparr>) p"
    by (simp add: vaccini_simps vaccini_defs)
  have h3: "local_timestamp (fsys \<lparr>fsys = downloaded_tree, requests = []\<rparr>) [''vaccinations''] =
      Inr epoch_utc"
    by (simp add: vaccini_simps vaccini_defs)
  have h4: "net_vaccini_missing (last_update_url [''vaccinations'']) = Document example_marker"
    by (simp add: vaccini_simps vaccini_defs)
  have h5: "ultimo_aggiornamento example_marker = Inr (Timestamp 1615800000000000000 True)"
    by (simp add: vaccini_simps vaccini_defs)
  have h6: "ts_le (Timestamp 1615800000000000000 True) epoch_utc = Inr False"
    by (simp add: ts_le_def epoch_utc_def)
  have present:
    "exists downloaded_tree [''vaccinations'', ''consegne-vaccini-latest.csv''] \<and>
     exists downloaded_tree [''vaccinations'', ''somministrazioni-vaccini-latest.csv''] \<and>
     exists downloaded_tree [''vaccinations'', ''platea.csv''] \<and>
     exists downloaded_tree [''vaccinations'', ''platea-dose-addizionale-booster.csv'']"
    by (simp add: exists_def vaccini_defs)
  show ?thesis
    using C10_marker_advances_without_download[of "\<lparr>fsys = downloaded_tree, requests = []\<rparr>"
        "[''vaccinations'']" epoch_utc net_vaccini_missing example_marker
        "Timestamp 1615800000000000000 True"] h1 h2 h3 h4 h5 h6 present
    by simp
qed

end
